theory Spec2Isabelle
  imports Main
begin

section \<open>Go values that the package handles\<close>

text \<open>
  Package \<open>testerr\<close> (file \<open>testerr/testerr.go\<close>) compares an observed \<open>error\<close> with a
  \<open>Want\<close> and returns a string: empty for a match, a diagnostic otherwise. Its own code is
  forty lines; everything it computes goes through four functions of the Go standard
  library: \<open>errors.Is\<close>, \<open>errors.As\<close>, \<open>strings.Contains\<close> and \<open>fmt.Sprintf\<close>, and through
  the \<open>==\<close> of interface values. This section models the values, the next ones the
  library functions (from their documented behaviour and their sources in the Go
  distribution), and then the package itself, function by function.

  The \<open>==\<close> of Go walks two values of one comparable type part by part, in order, and
  stops at the first pair of parts that differ. A value is therefore kept as the list of
  its parts as \<open>==\<close> meets them:
  \<^item> \<open>Plain k\<close>: a part that is compared by content and equals itself: a boolean, an
    integer, a string, a pointer or channel (its address), a floating-point number that
    is not a NaN, the dynamic type of an interface-typed part that holds a value of a
    comparable type (the parts of that value follow), or the \<open>nil\<close> of such a part;
  \<^item> \<open>NaN\<close>: a floating-point part that is a NaN, which equals nothing, itself included;
  \<^item> \<open>Boxed T\<close>: an interface-typed part that holds a value of the uncomparable type
    \<open>T\<close>; comparing it with another such part of the same type \<open>T\<close> panics.
\<close>

datatype atom = Plain nat | NaN | Boxed string

text \<open>
  A Go \<open>error\<close> is an interface value: either \<open>nil\<close> or a dynamic type together with a
  value of that type. \<open>error option\<close> is the interface value, \<open>None\<close> being \<open>nil\<close>. A non-nil
  error is
  \<^item> its dynamic type: the name \<open>%T\<close> prints and whether the type is comparable
    (pointers, and structs and arrays of comparable types, are; slices and maps are not);
  \<^item> its value within that type, as the parts that \<open>==\<close> walks: the address for a
    pointer type such as \<open>*errors.errorString\<close>, the fields for a struct type such as
    \<open>myError\<close>;
  \<^item> the string its \<open>Error()\<close> method returns;
  \<^item> the errors its \<open>Unwrap()\<close> method returns: none when the type has no such method
    or it returns \<open>nil\<close>, one for \<open>Unwrap() error\<close>, several for \<open>Unwrap() []error\<close>
    (the \<open>nil\<close> entries, which \<open>errors.Is\<close> and \<open>errors.As\<close> skip, left out).
  Methods are pure and return; an error chain is finite.
\<close>

datatype dyntype = DynType (tname: string) (comparable: bool)

datatype error = Err (dyn_type: dyntype) (dyn_value: "atom list") (Error: string) (Unwrap: "error list")

text \<open>
  A run-time panic. The only operation of the package and of the library functions it
  calls that can panic by itself is \<open>==\<close>: a comparison of two interface values with the
  same dynamic type panics when that type is not comparable, and so does the comparison
  of two values one of whose interface-typed parts holds such a pair.
\<close>

datatype panic = UncomparableType string

text \<open>The \<open>==\<close> of two values of one comparable type, on their parts.\<close>

fun values_eq :: "atom list \<Rightarrow> atom list \<Rightarrow> panic + bool" where
  "values_eq [] [] = Inr True"
| "values_eq (Plain a # as) (Plain b # bs) = (if a = b then values_eq as bs else Inr False)"
| "values_eq (Boxed s # as) (Boxed t # bs) = (if s = t then Inl (UncomparableType s) else Inr False)"
| "values_eq [] (b # bs) = Inr False"
| "values_eq (a # as) [] = Inr False"
| "values_eq (NaN # as) (b # bs) = Inr False"
| "values_eq (Plain a # as) (NaN # bs) = Inr False"
| "values_eq (Plain a # as) (Boxed t # bs) = Inr False"
| "values_eq (Boxed s # as) (Plain b # bs) = Inr False"
| "values_eq (Boxed s # as) (NaN # bs) = Inr False"

text \<open>The \<open>==\<close> of two interface values of type \<open>error\<close>.\<close>

fun iface_eq :: "error option \<Rightarrow> error option \<Rightarrow> panic + bool" where
  "iface_eq None None = Inr True"
| "iface_eq (Some x) (Some y) =
     (if dyn_type x = dyn_type y
      then (if comparable (dyn_type x) then values_eq (dyn_value x) (dyn_value y)
            else Inl (UncomparableType (tname (dyn_type x))))
      else Inr False)"
| "iface_eq None (Some y) = Inr False"
| "iface_eq (Some x) None = Inr False"

text \<open>
  The type argument \<open>T\<close> of \<open>As[T error]\<close>: a concrete type, given by its zero value (what
  \<open>var target T\<close> holds), or an interface type, given by the dynamic types that implement
  it. The zero value of an interface type is \<open>nil\<close>.
\<close>

datatype gotype = ConcreteT error | InterfaceT "dyntype \<Rightarrow> bool"

fun zero_value :: "gotype \<Rightarrow> error option" where
  "zero_value (ConcreteT z) = Some z"
| "zero_value (InterfaceT impl) = None"

text \<open>\<open>reflect.Type.AssignableTo\<close> for the dynamic type of an error and a target type.\<close>

fun AssignableTo :: "dyntype \<Rightarrow> gotype \<Rightarrow> bool" where
  "AssignableTo d (ConcreteT z) = (d = dyn_type z)"
| "AssignableTo d (InterfaceT impl) = impl d"

text \<open>
  The operands of \<open>Sprintf\<close>, of type \<open>any\<close>. The package passes errors and strings only,
  and operands of other types are outside this model; a \<open>nil\<close> error converted to \<open>any\<close>
  is the \<open>nil\<close> of \<open>any\<close>.
\<close>

datatype any = NilV | ErrV error | StrV string

fun any_of :: "error option \<Rightarrow> any" where
  "any_of None = NilV"
| "any_of (Some e) = ErrV e"

text \<open>
  What the model takes from outside, as parameters:
  \<^item> the optional methods \<open>Is(error) bool\<close> and \<open>As(any) bool\<close> that an error type may
    define and that \<open>errors.Is\<close> and \<open>errors.As\<close> consult. \<open>Is_method E e t\<close> holds when the
    type of \<open>e\<close> has an \<open>Is\<close> method and \<open>e.Is(t)\<close> returns true. \<open>As_method E e T\<close> is
    \<open>Some v\<close> when the type of \<open>e\<close> has an \<open>As\<close> method that, given a pointer to a variable
    of type \<open>T\<close>, stores \<open>v\<close> there and returns true; it is \<open>None\<close> when there is no such
    method or it returns false (leaving the variable alone, as the contract of
    \<open>errors.As\<close> asks);
  \<^item> \<open>IsPrint_table E r\<close>: whether the tables of package \<open>strconv\<close> list the rune \<open>r\<close>,
    above \<open>U+00FF\<close>, as printable;
  \<^item> \<open>fmt_other E format a argNum reordered\<close>: what package \<open>fmt\<close> does with a directive
    that this model does not spell out (one with flags, a width or a precision, with a
    malformed argument index, or with a verb that prints an error by reflection on its
    representation). \<open>format\<close> is the format after the \<open>%\<close>; the result is the output,
    the number of bytes of the directive after its first one, and the number of the next
    operand and the flag \<open>reordered\<close> afterwards.
\<close>

record env =
  Is_method :: "error \<Rightarrow> error \<Rightarrow> bool"
  As_method :: "error \<Rightarrow> gotype \<Rightarrow> error option"
  IsPrint_table :: "nat \<Rightarrow> bool"
  fmt_other :: "string \<Rightarrow> any list \<Rightarrow> nat \<Rightarrow> bool \<Rightarrow> string \<times> nat \<times> nat \<times> bool"

text \<open>
  An environment for examples: no error type has an \<open>Is\<close> or \<open>As\<close> method. The examples
  below use no rune above \<open>U+00FF\<close> and no directive outside the model, so its other two
  components are never consulted.
\<close>

definition env0 :: env where
  "env0 = \<lparr>Is_method = (\<lambda>e t. False), As_method = (\<lambda>e T. None),
            IsPrint_table = (\<lambda>r. False), fmt_other = (\<lambda>format a n r. ([], 0, n, r))\<rparr>"

section \<open>Package errors\<close>

text \<open>The first result that is a panic or true, in order; false when there is none.\<close>

fun firstTrue :: "(panic + bool) list \<Rightarrow> panic + bool" where
  "firstTrue [] = Inr False"
| "firstTrue (Inl p # rs) = Inl p"
| "firstTrue (Inr True # rs) = Inr True"
| "firstTrue (Inr False # rs) = firstTrue rs"

text \<open>
  \<open>errors.is(err, target, targetComparable)\<close>: the loop of \<open>errors.Is\<close> over the tree that
  \<open>Unwrap\<close> spans, depth first. At each error it compares with \<open>==\<close> when the target's
  type is comparable, then asks the \<open>Is\<close> method, then unwraps.
\<close>

fun errors_is :: "env \<Rightarrow> error \<Rightarrow> error \<Rightarrow> bool \<Rightarrow> panic + bool" where
  "errors_is E (Err t v m us) target targetComparable =
     (case (if targetComparable then iface_eq (Some (Err t v m us)) (Some target) else Inr False) of
        Inl p \<Rightarrow> Inl p
      | Inr True \<Rightarrow> Inr True
      | Inr False \<Rightarrow>
          if Is_method E (Err t v m us) target then Inr True
          else firstTrue (map (\<lambda>u. errors_is E u target targetComparable) us))"

text \<open>\<open>errors.Is(err, target)\<close>.\<close>

fun errors_Is :: "env \<Rightarrow> error option \<Rightarrow> error option \<Rightarrow> panic + bool" where
  "errors_Is E (Some err) (Some target) = errors_is E err target (comparable (dyn_type target))"
| "errors_Is E None target = Inr (target = None)"
| "errors_Is E (Some err) None = Inr False"

fun firstSome :: "'a option list \<Rightarrow> 'a option" where
  "firstSome [] = None"
| "firstSome (None # xs) = firstSome xs"
| "firstSome (Some x # xs) = Some x"

text \<open>
  \<open>errors.as\<close>: the loop of \<open>errors.As\<close>, returning what it stores in \<open>*target\<close> when it
  returns true, and \<open>None\<close> when it returns false.
\<close>

fun errors_as :: "env \<Rightarrow> error \<Rightarrow> gotype \<Rightarrow> error option" where
  "errors_as E (Err t v m us) T =
     (if AssignableTo t T then Some (Err t v m us)
      else case As_method E (Err t v m us) T of
             Some x \<Rightarrow> Some x
           | None \<Rightarrow> firstSome (map (\<lambda>u. errors_as E u T) us))"

text \<open>\<open>errors.As(err, &target)\<close> for \<open>var target T\<close>.\<close>

fun errors_As :: "env \<Rightarrow> error option \<Rightarrow> gotype \<Rightarrow> error option" where
  "errors_As E None T = None"
| "errors_As E (Some err) T = errors_as E err T"

section \<open>Package strings\<close>

text \<open>\<open>strings.Contains(s, substr)\<close>: \<open>substr\<close> occurs in \<open>s\<close> at some position.\<close>

fun strings_Contains :: "string \<Rightarrow> string \<Rightarrow> bool" where
  "strings_Contains [] substr = (substr = [])"
| "strings_Contains (c # s) substr =
     (take (length substr) (c # s) = substr \<or> strings_Contains s substr)"

section \<open>Package strconv\<close>

definition lowerhex :: "nat \<Rightarrow> char" where
  "lowerhex n = ''0123456789abcdef'' ! (n mod 16)"

definition upperhex :: "nat \<Rightarrow> char" where
  "upperhex n = ''0123456789ABCDEF'' ! (n mod 16)"

text \<open>The byte as a number, and whether it lies in a range.\<close>

definition byte :: "char \<Rightarrow> nat" where
  "byte c = of_char c"

definition between :: "nat \<Rightarrow> char \<Rightarrow> nat \<Rightarrow> bool" where
  "between lo c hi = (lo \<le> byte c \<and> byte c \<le> hi)"

text \<open>
  \<open>utf8.DecodeRuneInString\<close> on a string whose first byte is \<open>0x80\<close> or more: the rune and
  the number of bytes of its encoding, or \<open>None\<close> where Go returns \<open>RuneError\<close> with width
  one (a byte that starts no encoding, an encoding cut short, a continuation byte out of
  range, an overlong encoding, a surrogate, a rune above \<open>U+10FFFF\<close>).
\<close>

fun DecodeRune :: "string \<Rightarrow> (nat \<times> nat) option" where
  "DecodeRune [] = None"
| "DecodeRune (b0 # rest) =
     (if between 0xC2 b0 0xDF then
        (case rest of
           b1 # r1 \<Rightarrow>
             if between 0x80 b1 0xBF then Some ((byte b0 mod 32) * 64 + byte b1 mod 64, 2)
             else None
         | [] \<Rightarrow> None)
      else if between 0xE0 b0 0xEF then
        (case rest of
           b1 # b2 # r2 \<Rightarrow>
             if between (if byte b0 = 0xE0 then 0xA0 else 0x80) b1
                        (if byte b0 = 0xED then 0x9F else 0xBF) \<and> between 0x80 b2 0xBF
             then Some ((byte b0 mod 16) * 4096 + (byte b1 mod 64) * 64 + byte b2 mod 64, 3)
             else None
         | _ \<Rightarrow> None)
      else if between 0xF0 b0 0xF4 then
        (case rest of
           b1 # b2 # b3 # r3 \<Rightarrow>
             if between (if byte b0 = 0xF0 then 0x90 else 0x80) b1
                        (if byte b0 = 0xF4 then 0x8F else 0xBF) \<and> between 0x80 b2 0xBF
                \<and> between 0x80 b3 0xBF
             then Some ((byte b0 mod 8) * 262144 + (byte b1 mod 64) * 4096
                        + (byte b2 mod 64) * 64 + byte b3 mod 64, 4)
             else None
         | _ \<Rightarrow> None)
      else None)"

text \<open>
  \<open>strconv.IsPrint\<close>: the fast check for Latin-1 as the source has it, and the tables
  above it.
\<close>

definition IsPrint :: "env \<Rightarrow> nat \<Rightarrow> bool" where
  "IsPrint E r =
     (if r \<le> 0xFF then (0x20 \<le> r \<and> r \<le> 0x7E) \<or> (0xA1 \<le> r \<and> r \<noteq> 0xAD)
      else IsPrint_table E r)"

text \<open>
  \<open>strconv.appendEscapedRune\<close> for the double quote, neither ASCII-only nor
  graphic-only: the rune \<open>r\<close>, whose bytes in the string are \<open>bs\<close>.
\<close>

definition appendEscapedRune :: "env \<Rightarrow> nat \<Rightarrow> string \<Rightarrow> string" where
  "appendEscapedRune E r bs =
     (if r = 0x22 \<or> r = 0x5C then CHR 0x5C # bs
      else if IsPrint E r then bs
      else if r = 0x07 then [CHR 0x5C, CHR ''a'']
      else if r = 0x08 then [CHR 0x5C, CHR ''b'']
      else if r = 0x0C then [CHR 0x5C, CHR ''f'']
      else if r = 0x0A then [CHR 0x5C, CHR ''n'']
      else if r = 0x0D then [CHR 0x5C, CHR ''r'']
      else if r = 0x09 then [CHR 0x5C, CHR ''t'']
      else if r = 0x0B then [CHR 0x5C, CHR ''v'']
      else if r < 0x20 \<or> r = 0x7F then [CHR 0x5C, CHR ''x'', lowerhex (r div 16), lowerhex r]
      else if r < 0x10000 then
        [CHR 0x5C, CHR ''u'', lowerhex (r div 4096), lowerhex (r div 256), lowerhex (r div 16),
         lowerhex r]
      else
        [CHR 0x5C, CHR ''U'', lowerhex (r div 268435456), lowerhex (r div 16777216),
         lowerhex (r div 1048576), lowerhex (r div 65536), lowerhex (r div 4096),
         lowerhex (r div 256), lowerhex (r div 16), lowerhex r])"

text \<open>
  The loop of \<open>strconv.appendQuotedWith\<close>: rune by rune; a byte that is no valid UTF-8 is
  written \<open>\xhh\<close>.
\<close>

function quoteRunes :: "env \<Rightarrow> string \<Rightarrow> string" where
  "quoteRunes E [] = []"
| "quoteRunes E (c # s) =
     (if byte c < 0x80 then appendEscapedRune E (byte c) [c] @ quoteRunes E s
      else case DecodeRune (c # s) of
             None \<Rightarrow> [CHR 0x5C, CHR ''x'', lowerhex (byte c div 16), lowerhex (byte c)] @ quoteRunes E s
           | Some (r, width) \<Rightarrow>
               appendEscapedRune E r (c # take (width - 1) s) @ quoteRunes E (drop (width - 1) s))"
  by pat_completeness auto

termination
  by (relation "measure (\<lambda>(E, s). length s)") auto

text \<open>\<open>strconv.Quote\<close>, which \<open>%q\<close> applies to a string.\<close>

definition strconv_Quote :: "env \<Rightarrow> string \<Rightarrow> string" where
  "strconv_Quote E s = CHR 0x22 # quoteRunes E s @ [CHR 0x22]"

section \<open>Package fmt\<close>

text \<open>
  \<open>reflect.TypeOf(arg).String()\<close> for an operand that is not \<open>nil\<close>; for \<open>nil\<close>, what \<open>%T\<close>
  prints.
\<close>

fun type_String :: "any \<Rightarrow> string" where
  "type_String (ErrV e) = tname (dyn_type e)"
| "type_String (StrV s) = ''string''"
| "type_String NilV = ''<nil>''"

text \<open>
  What \<open>%v\<close> prints: \<open><nil>\<close> for \<open>nil\<close>, the string itself for a string, and for an error
  the result of its \<open>Error()\<close> method (error types are taken not to implement
  \<open>fmt.Formatter\<close>).
\<close>

fun print_v :: "any \<Rightarrow> string" where
  "print_v NilV = ''<nil>''"
| "print_v (ErrV e) = Error e"
| "print_v (StrV s) = s"

text \<open>\<open>(*fmt).fmtSx\<close> without flags: two hexadecimal digits for each byte.\<close>

definition fmtSx :: "(nat \<Rightarrow> char) \<Rightarrow> string \<Rightarrow> string" where
  "fmtSx digits s = concat (map (\<lambda>c. [digits (byte c div 16), digits (byte c)]) s)"

text \<open>
  \<open>(*pp).fmtString\<close>, for a string operand and for the text of an error: the verbs
  \<open>v s x X q\<close>; \<open>None\<close> for any other verb.
\<close>

definition fmtString :: "env \<Rightarrow> string \<Rightarrow> char \<Rightarrow> string option" where
  "fmtString E s verb =
     (if verb = CHR ''v'' \<or> verb = CHR ''s'' then Some s
      else if verb = CHR ''x'' then Some (fmtSx lowerhex s)
      else if verb = CHR ''X'' then Some (fmtSx upperhex s)
      else if verb = CHR ''q'' then Some (strconv_Quote E s)
      else None)"

text \<open>
  \<open>(*pp).printArg\<close> for one operand and an ASCII verb, without flags. \<open>nil\<close> prints as
  \<open><nil>\<close> under \<open>T\<close> and \<open>v\<close> and is a bad verb otherwise. \<open>T\<close> prints the type. A string
  goes through \<open>fmtString\<close> and is a bad verb otherwise (\<open>%!c(string=...)\<close>). An error goes
  through \<open>fmtString\<close> with the text of \<open>Error()\<close>; under any other verb fmt prints it by
  reflection on its representation, which this model does not have: \<open>None\<close>.
\<close>

definition printArg :: "env \<Rightarrow> any \<Rightarrow> char \<Rightarrow> string option" where
  "printArg E arg verb =
     (case arg of
        NilV \<Rightarrow>
          Some (if verb = CHR ''T'' \<or> verb = CHR ''v'' then ''<nil>''
                else ''%!'' @ [verb] @ ''(<nil>)'')
      | StrV s \<Rightarrow>
          if verb = CHR ''T'' then Some ''string''
          else (case fmtString E s verb of
                  Some out \<Rightarrow> Some out
                | None \<Rightarrow> Some (''%!'' @ [verb] @ ''(string='' @ s @ '')''))
      | ErrV e \<Rightarrow>
          if verb = CHR ''T'' then Some (tname (dyn_type e))
          else fmtString E (Error e) verb)"

text \<open>
  \<open>fmt.parsenum\<close> on the characters between the brackets of an explicit argument index:
  the number they spell, \<open>None\<close> when one of them is not a digit or the number grows past
  \<open>tooLarge\<close>.
\<close>

fun parsenum :: "string \<Rightarrow> nat \<Rightarrow> nat option" where
  "parsenum [] num = Some num"
| "parsenum (c # cs) num =
     (if between 48 c 57
      then (if num > 1000000 then None else parsenum cs (num * 10 + (byte c - 48)))
      else None)"

text \<open>
  \<open>fmt.parseArgNumber\<close>, on the format from the opening bracket on: the zero-based
  index, the number of bytes to skip, and whether the index parsed.
\<close>

definition parseArgNumber :: "string \<Rightarrow> int \<times> nat \<times> bool" where
  "parseArgNumber format =
     (if length format < 3 then (0, 1, False)
      else let body = takeWhile (\<lambda>c. c \<noteq> CHR '']'') (tl format) in
        if length body = length (tl format) then (0, 1, False)
        else (case (if body = [] then None else parsenum body 0) of
                None \<Rightarrow> (0, length body + 2, False)
              | Some width \<Rightarrow> (int width - 1, length body + 2, True)))"

text \<open>The operands left over at the end of the format: \<open>%!(EXTRA type=value, ...)\<close>.\<close>

fun extraArg :: "any \<Rightarrow> string" where
  "extraArg NilV = ''<nil>''"
| "extraArg (ErrV e) = type_String (ErrV e) @ ''='' @ print_v (ErrV e)"
| "extraArg (StrV s) = type_String (StrV s) @ ''='' @ print_v (StrV s)"

fun commaSep :: "string list \<Rightarrow> string" where
  "commaSep [] = []"
| "commaSep [x] = x"
| "commaSep (x # y # ys) = x @ '', '' @ commaSep (y # ys)"

definition extraArgs :: "any list \<Rightarrow> string" where
  "extraArgs as = ''%!(EXTRA '' @ commaSep (map extraArg as) @ '')''"

text \<open>
  The characters that, right after the \<open>%\<close>, start a flag, a width or a precision, or
  are not ASCII; and those that do so after an argument index, where flags are no longer
  read. A directive that has one of them is left to \<open>fmt_other\<close>.
\<close>

definition flag_or_width :: "char \<Rightarrow> bool" where
  "flag_or_width c =
     (c = CHR ''#'' \<or> c = CHR ''+'' \<or> c = CHR ''-'' \<or> c = CHR '' '' \<or> between 48 c 57
      \<or> c = CHR ''.'' \<or> c = CHR ''*'' \<or> 0x80 \<le> byte c)"

definition width_after_index :: "char \<Rightarrow> bool" where
  "width_after_index c = (between 48 c 57 \<or> c = CHR ''.'' \<or> c = CHR ''*'' \<or> 0x80 \<le> byte c)"

text \<open>
  The end of a directive in \<open>(*pp).doPrintf\<close>: the verb, once flags, index, width and
  precision are behind. \<open>%%\<close> prints a percent sign and takes no operand; a bad index
  and a missing operand are reported; otherwise the operand is printed. The result is the
  output, the rest of the format, the number of the next operand and the flag
  \<open>reordered\<close>; \<open>other\<close> is the result to return where the model has none.
\<close>

definition verbStep ::
  "env \<Rightarrow> char \<Rightarrow> string \<Rightarrow> any list \<Rightarrow> nat \<Rightarrow> bool \<Rightarrow> bool \<Rightarrow> string \<times> string \<times> nat \<times> bool
   \<Rightarrow> string \<times> string \<times> nat \<times> bool" where
  "verbStep E verb rest a argNum reordered goodArgNum other =
     (if verb = CHR ''%'' then (''%'', rest, argNum, reordered)
      else if \<not> goodArgNum then (''%!'' @ [verb] @ ''(BADINDEX)'', rest, argNum, reordered)
      else if length a \<le> argNum then (''%!'' @ [verb] @ ''(MISSING)'', rest, argNum, reordered)
      else (case printArg E (a ! argNum) verb of
              Some out \<Rightarrow> (out, rest, Suc argNum, reordered)
            | None \<Rightarrow> other))"

text \<open>
  One directive of \<open>(*pp).doPrintf\<close>, on the format after the \<open>%\<close>: nothing left
  (\<open>%!(NOVERB)\<close>), an explicit argument index \<open>[n]\<close> (\<open>(*pp).argNumber\<close>: it sets
  \<open>reordered\<close>, and the number of the operand when it is in range) and a verb, or a verb
  alone.
\<close>

definition directive ::
  "env \<Rightarrow> string \<Rightarrow> any list \<Rightarrow> nat \<Rightarrow> bool \<Rightarrow> string \<times> string \<times> nat \<times> bool" where
  "directive E format a argNum reordered =
     (let other = (case fmt_other E format a argNum reordered of
                     (out, k, argNum', reordered') \<Rightarrow> (out, drop (Suc k) format, argNum', reordered'))
      in case format of
           [] \<Rightarrow> (''%!(NOVERB)'', [], argNum, reordered)
         | c # rest \<Rightarrow>
             if c = CHR ''['' then
               (case parseArgNumber format of (index, wid, ok) \<Rightarrow>
                  if \<not> ok then other
                  else
                    let good = (0 \<le> index \<and> index < int (length a));
                        argNum1 = (if good then nat index else argNum)
                    in (case drop wid format of
                          [] \<Rightarrow> (''%!(NOVERB)'', [], argNum1, True)
                        | verb # rest1 \<Rightarrow>
                            if width_after_index verb then other
                            else verbStep E verb rest1 a argNum1 True good other))
             else if flag_or_width c then other
             else verbStep E c rest a argNum reordered True other)"

text \<open>
  \<open>(*pp).doPrintf\<close> on the rest of the format, with the operands, the number of the next
  operand and the flag \<open>reordered\<close>. At the end of the format the operands not used are
  reported, unless an explicit index was seen.
\<close>

function doPrintf :: "env \<Rightarrow> string \<Rightarrow> any list \<Rightarrow> nat \<Rightarrow> bool \<Rightarrow> string" where
  "doPrintf E [] a argNum reordered =
     (if \<not> reordered \<and> argNum < length a then extraArgs (drop argNum a) else [])"
| "doPrintf E (c # format) a argNum reordered =
     (if c \<noteq> CHR ''%'' then c # doPrintf E format a argNum reordered
      else (case directive E format a argNum reordered of
              (out, rest, argNum', reordered') \<Rightarrow> out @ doPrintf E rest a argNum' reordered'))"
  by pat_completeness auto

termination
proof -
  have dropped: "length ys \<le> length xs" if "drop k xs = y # ys" for k and y :: char and xs ys
  proof -
    have "length (drop k xs) \<le> length xs" by simp
    with that show ?thesis by simp
  qed
  have shorter: "length rest \<le> length format"
    if "(out, rest, n', r') = directive E format a n r"
    for out rest format :: string and n n' :: nat and r r' :: bool and E a
    using that
    by (auto simp: directive_def verbStep_def Let_def dest: dropped
        split: list.splits prod.splits if_splits option.splits)
  show ?thesis
    by (relation "measure (\<lambda>(E, format, a, n, r). length format)")
       (auto dest!: shorter)
qed

text \<open>\<open>fmt.Sprintf(format, a...)\<close>.\<close>

definition Sprintf :: "env \<Rightarrow> string \<Rightarrow> any list \<Rightarrow> string" where
  "Sprintf E format a = doPrintf E format a 0 False"

section \<open>Package testerr\<close>

text \<open>
  \<open>type Want interface { ErrDiff(got error) string }\<close>. An implementation of the
  interface is its method, and \<open>type Func func(error) string\<close> turns any function into
  one, so \<open>Func\<close> applied to a function is every \<open>Want\<close> there is. A \<open>nil\<close> \<open>Want\<close> is
  \<open>None\<close> of \<open>Want option\<close>. A call returns a string or panics. (The function inside a
  \<open>Func\<close> is taken not to be \<open>nil\<close>.)
\<close>

datatype Want = Func "error option \<Rightarrow> panic + string"

text \<open>\<open>func (fn Func) ErrDiff(got error) string { return fn(got) }\<close>\<close>

fun ErrDiff :: "Want \<Rightarrow> error option \<Rightarrow> panic + string" where
  "ErrDiff (Func fn) got = fn got"

text \<open>
  \<open>DiffMessage\<close> builds its format with a first \<open>Sprintf\<close> and prints the observed error
  in front of the caller's operands with a second one.
\<close>

definition DiffMessage :: "env \<Rightarrow> error option \<Rightarrow> string \<Rightarrow> any list \<Rightarrow> string" where
  "DiffMessage E got wantFormat a =
     (let format = Sprintf E ''got error %%v; want %s'' [StrV wantFormat]
      in Sprintf E format (any_of got # a))"

definition Diff :: "env \<Rightarrow> error option \<Rightarrow> Want option \<Rightarrow> panic + string" where
  "Diff E got want =
     (case want of
        None \<Rightarrow> (if got = None then Inr [] else Inr (DiffMessage E got ''nil'' []))
      | Some w \<Rightarrow> ErrDiff w got)"

definition Is :: "env \<Rightarrow> error option \<Rightarrow> Want" where
  "Is E target = Func (\<lambda>got.
     case errors_Is E got target of
       Inl p \<Rightarrow> Inl p
     | Inr True \<Rightarrow> Inr []
     | Inr False \<Rightarrow> Inr (DiffMessage E got ''error that Is() %v'' [any_of target]))"

text \<open>
  \<open>As[T error](match)\<close>. \<open>match\<close> receives the value that \<open>errors.As\<close> stored in
  \<open>target\<close>; when \<open>errors.As\<close> fails \<open>target\<close> still holds the zero value of \<open>T\<close>.
\<close>

definition As :: "env \<Rightarrow> gotype \<Rightarrow> (error \<Rightarrow> string) \<Rightarrow> Want" where
  "As E T match = Func (\<lambda>got.
     case errors_As E got T of
       None \<Rightarrow> Inr (DiffMessage E got ''error tree containing type %T'' [any_of (zero_value T)])
     | Some target \<Rightarrow>
         (let d = match target in
          if d \<noteq> [] then Inr (DiffMessage E got ''%s'' [StrV d]) else Inr []))"

definition Equals :: "env \<Rightarrow> error option \<Rightarrow> Want" where
  "Equals E want = Func (\<lambda>got.
     case iface_eq got want of
       Inl p \<Rightarrow> Inl p
     | Inr True \<Rightarrow> Inr []
     | Inr False \<Rightarrow> Inr (DiffMessage E got ''== %v'' [any_of want]))"

definition Contains :: "env \<Rightarrow> string \<Rightarrow> Want" where
  "Contains E substr = Func (\<lambda>got.
     if (case got of None \<Rightarrow> False | Some e \<Rightarrow> strings_Contains (Error e) substr) then Inr []
     else Inr (DiffMessage E got ''containing substring %q'' [StrV substr]))"

subsection \<open>The values of the package's example\<close>

text \<open>
  \<open>errors.New\<close> allocates an \<open>*errors.errorString\<close>; the address tells two calls apart.
  \<open>fmt.Errorf\<close> with one \<open>%w\<close> allocates a \<open>*fmt.wrapError\<close> holding the message and the
  wrapped error.
\<close>

definition errors_New :: "nat \<Rightarrow> string \<Rightarrow> error" where
  "errors_New addr text = Err (DynType ''*errors.errorString'' True) [Plain addr] text []"

definition wrapError :: "nat \<Rightarrow> string \<Rightarrow> error \<Rightarrow> error" where
  "wrapError addr msg err = Err (DynType ''*fmt.wrapError'' True) [Plain addr] msg [err]"

definition errUhOh :: error where
  "errUhOh = errors_New 1 ''uh oh''"

definition errWrapped :: error where
  "errWrapped = wrapError 2 ''wrapped(uh oh)'' errUhOh"

definition errOther :: error where
  "errOther = errors_New 3 ''something else''"

text \<open>
  The custom error type of the example, \<open>type myError struct{ val int }\<close>, a comparable
  value type, with the two values the example uses (each with the text that its \<open>Error\<close>
  method prints for it), the function the example hands to \<open>As\<close>, and the type as the type
  argument of \<open>As\<close>.
\<close>

definition myError :: "nat \<Rightarrow> string \<Rightarrow> error" where
  "myError val text = Err (DynType ''testerr_test.myError'' True) [Plain val] text []"

definition err42 :: error where
  "err42 = myError 42 ''val 42 is not good''"

definition err43 :: error where
  "err43 = myError 43 ''val 43 is not good''"

definition match42 :: "error \<Rightarrow> string" where
  "match42 got = (if dyn_value got \<noteq> [Plain 42] then ''42 (of course)'' else [])"

definition myErrorT :: gotype where
  "myErrorT = ConcreteT (myError 0 ''val 0 is not good'')"

text \<open>
  Values outside the example:
  \<^item> a second \<open>errors.New("uh oh")\<close>, with the message of \<open>errUhOh\<close> at another address;
  \<^item> an error of a slice type, \<open>type sliceError []string\<close>, which is not comparable;
  \<^item> an error of a comparable struct type, \<open>type causeError struct{ cause error }\<close>,
    whose field holds a \<open>sliceError\<close>;
  \<^item> an error of a comparable struct type, \<open>type floatError struct{ f float64 }\<close>, whose
    field is a NaN;
  \<^item> an interface type that embeds \<open>error\<close>, such as
    \<open>interface{ error; Timeout() bool }\<close>, which \<open>*net.OpError\<close> implements and the types
    above do not;
  \<^item> a \<open>Want\<close> that a caller wrote with the \<open>Func\<close> adaptor;
  \<^item> a substring with a double quote, a backslash, a line feed, the byte \<open>0xFF\<close> (no
    valid UTF-8), the no-break space \<open>U+00A0\<close> (not printable) and the letter \<open>U+00E9\<close>
    (printable).
\<close>

definition errUhOh2 :: error where
  "errUhOh2 = errors_New 4 ''uh oh''"

definition sliceError :: error where
  "sliceError = Err (DynType ''main.sliceError'' False) [] ''boom'' []"

definition causeError :: error where
  "causeError = Err (DynType ''main.causeError'' True) [Boxed ''main.sliceError''] ''cause: boom'' []"

definition floatError :: error where
  "floatError = Err (DynType ''main.floatError'' True) [NaN] ''NaN'' []"

definition timeoutT :: gotype where
  "timeoutT = InterfaceT (\<lambda>d. tname d = ''*net.OpError'')"

definition ownWant :: Want where
  "ownWant = Func (\<lambda>got. Inr ''unexpected'')"

definition oddSubstr :: string where
  "oddSubstr = [CHR 0x22, CHR 0x5C, CHR 0x0A, CHR 0xFF, CHR 0xC2, CHR 0xA0, CHR 0xC3, CHR 0xA9]"

section \<open>Notions the properties are stated with\<close>

text \<open>
  \<open>unwraps_to e c\<close>: \<open>c\<close> is \<open>e\<close> or is reached from \<open>e\<close> by unwrapping, once or
  repeatedly.
\<close>

inductive unwraps_to :: "error \<Rightarrow> error \<Rightarrow> bool" where
  here: "unwraps_to e e"
| step: "u \<in> set (Unwrap e) \<Longrightarrow> unwraps_to u c \<Longrightarrow> unwraps_to e c"

code_pred unwraps_to .

text \<open>
  Two errors are identical: both are \<open>nil\<close>, or they have the same dynamic type and the
  same value of that type. (The text and the wrapped errors are what the methods of the
  type return for that value.)
\<close>

definition same_value :: "error \<Rightarrow> error \<Rightarrow> bool" where
  "same_value x y = (dyn_type x = dyn_type y \<and> dyn_value x = dyn_value y)"

fun identical :: "error option \<Rightarrow> error option \<Rightarrow> bool" where
  "identical None None = True"
| "identical (Some x) (Some y) = same_value x y"
| "identical None (Some y) = False"
| "identical (Some x) None = False"

text \<open>
  An error is plain: its dynamic type is comparable, and its value has no part that is a
  NaN and no interface-typed part that holds a value of an uncomparable type. Pointers,
  among them the errors of \<open>errors.New\<close> and \<open>fmt.Errorf\<close>, are plain.
\<close>

fun is_Plain :: "atom \<Rightarrow> bool" where
  "is_Plain (Plain k) = True"
| "is_Plain NaN = False"
| "is_Plain (Boxed T) = False"

definition plain :: "error \<Rightarrow> bool" where
  "plain x = (comparable (dyn_type x) \<and> list_all is_Plain (dyn_value x))"

text \<open>
  \<open>verbs_only format\<close>: every directive of the format is a \<open>%\<close> followed at once by one of
  the verbs \<open>v s q x X T\<close> or by a second \<open>%\<close>.
\<close>

fun verbs_only :: "string \<Rightarrow> bool" where
  "verbs_only [] = True"
| "verbs_only [c] = (c \<noteq> CHR ''%'')"
| "verbs_only (c # v # format) =
     (if c = CHR ''%''
      then (v = CHR ''%'' \<or> v = CHR ''v'' \<or> v = CHR ''s'' \<or> v = CHR ''q'' \<or> v = CHR ''x''
            \<or> v = CHR ''X'' \<or> v = CHR ''T'') \<and> verbs_only format
      else verbs_only (v # format))"

text \<open>
  The canonical form of a diagnostic: \<open>got error\<close>, the observed error as \<open>%v\<close> prints
  it, \<open>; want\<close>, and a description.
\<close>

definition canonical :: "error option \<Rightarrow> string \<Rightarrow> bool" where
  "canonical got s =
     (let p = ''got error '' @ print_v (any_of got) @ ''; want '' in take (length p) s = p)"

text \<open>A call reports a mismatch: it returns, and the string it returns is not empty.\<close>

definition mismatch :: "panic + string \<Rightarrow> bool" where
  "mismatch r = (case r of Inl p \<Rightarrow> False | Inr s \<Rightarrow> s \<noteq> [])"

section \<open>Facts about the library functions\<close>

lemma printArg_v: "printArg E arg (CHR ''v'') = Some (print_v arg)"
  by (cases arg) (simp_all add: printArg_def fmtString_def)

lemma printArg_s_string: "printArg E (StrV s) (CHR ''s'') = Some s"
  by (simp add: printArg_def fmtString_def)

lemma printArg_q_string: "printArg E (StrV s) (CHR ''q'') = Some (strconv_Quote E s)"
  by (simp add: printArg_def fmtString_def)

lemma printArg_T: "printArg E arg (CHR ''T'') = Some (type_String arg)"
  by (cases arg) (simp_all add: printArg_def)

text \<open>The verbs \<open>v s q x X T\<close> print every operand of the model.\<close>

lemma printArg_total:
  "verb = CHR ''v'' \<or> verb = CHR ''s'' \<or> verb = CHR ''q'' \<or> verb = CHR ''x'' \<or> verb = CHR ''X''
     \<or> verb = CHR ''T'' \<Longrightarrow> \<exists>out. printArg E arg verb = Some out"
  by (cases arg) (auto simp: printArg_def fmtString_def)

lemma doPrintf_literal:
  "c \<noteq> CHR ''%'' \<Longrightarrow> doPrintf E (c # format) a n r = c # doPrintf E format a n r"
  by simp

lemma doPrintf_percent:
  "doPrintf E (CHR ''%'' # CHR ''%'' # rest) a n r = CHR ''%'' # doPrintf E rest a n r"
  by (simp add: directive_def verbStep_def flag_or_width_def between_def byte_def)

lemma doPrintf_noverb:
  "doPrintf E [CHR ''%''] a n r = ''%!(NOVERB)'' @ doPrintf E [] a n r"
  by (simp add: directive_def)

lemma doPrintf_verb:
  "verb = CHR ''v'' \<or> verb = CHR ''s'' \<or> verb = CHR ''q'' \<or> verb = CHR ''x'' \<or> verb = CHR ''X''
     \<or> verb = CHR ''T'' \<Longrightarrow>
   doPrintf E (CHR ''%'' # verb # rest) a n r =
     (if length a \<le> n then ''%!'' @ [verb] @ ''(MISSING)'' @ doPrintf E rest a n r
      else the (printArg E (a ! n) verb) @ doPrintf E rest a (Suc n) r)"
proof -
  assume v: "verb = CHR ''v'' \<or> verb = CHR ''s'' \<or> verb = CHR ''q'' \<or> verb = CHR ''x''
     \<or> verb = CHR ''X'' \<or> verb = CHR ''T''"
  then have nf: "\<not> flag_or_width verb" "verb \<noteq> CHR ''[''" "verb \<noteq> CHR ''%''"
    by (auto simp: flag_or_width_def between_def byte_def)
  obtain out where out: "printArg E (a ! n) verb = Some out"
    using printArg_total [OF v] by blast
  show ?thesis
    using nf out by (simp add: directive_def verbStep_def)
qed

declare doPrintf.simps(2) [simp del]

lemma Sprintf_v: "Sprintf E ''%v'' [arg] = print_v arg"
  by (simp add: Sprintf_def doPrintf_verb printArg_v)

text \<open>The format that \<open>DiffMessage\<close> builds is the fixed head followed by \<open>wantFormat\<close>.\<close>

lemma Sprintf_format:
  "Sprintf E ''got error %%v; want %s'' [StrV wantFormat] = ''got error %v; want '' @ wantFormat"
  by (simp add: Sprintf_def doPrintf_literal doPrintf_percent doPrintf_verb printArg_s_string)

text \<open>
  Hence every result of \<open>DiffMessage\<close> starts with the canonical head; the description is
  \<open>wantFormat\<close> printed with the observed error as operand number one, in front of the
  caller's operands.
\<close>

lemma DiffMessage_unfold:
  "DiffMessage E got wantFormat a =
     ''got error '' @ print_v (any_of got) @ ''; want '' @
     doPrintf E wantFormat (any_of got # a) 1 False"
  by (simp add: DiffMessage_def Sprintf_format)
     (simp add: Sprintf_def doPrintf_literal doPrintf_verb printArg_v)

lemma DiffMessage_nonempty: "DiffMessage E got wantFormat a \<noteq> []"
  by (simp add: DiffMessage_unfold)

lemma DiffMessage_canonical: "canonical got (DiffMessage E got wantFormat a)"
  by (simp add: DiffMessage_unfold canonical_def)

text \<open>
  A format of plain verbs takes its operands in order, so the extra operand in front
  does not show.
\<close>

lemma doPrintf_shift:
  "verbs_only format \<Longrightarrow>
   doPrintf E format (x # a) (Suc n) False = doPrintf E format a n False"
proof (induction format arbitrary: n rule: verbs_only.induct)
  case 1
  then show ?case by simp
next
  case (2 c)
  then show ?case by (simp add: doPrintf_literal)
next
  case (3 c v format)
  show ?case
  proof (cases "c = CHR ''%''")
    case False
    with 3 show ?thesis by (simp add: doPrintf_literal)
  next
    case True
    with "3.prems" have v: "v = CHR ''%'' \<or> v = CHR ''v'' \<or> v = CHR ''s'' \<or> v = CHR ''q''
        \<or> v = CHR ''x'' \<or> v = CHR ''X'' \<or> v = CHR ''T''" and rest: "verbs_only format"
      by simp_all
    have IH: "doPrintf E format (x # a) (Suc k) False = doPrintf E format a k False" for k
      using "3.IH"(1) [OF True] rest by simp
    show ?thesis
    proof (cases "v = CHR ''%''")
      case p: True
      with True IH show ?thesis by (simp add: doPrintf_percent)
    next
      case False
      with v have "v = CHR ''v'' \<or> v = CHR ''s'' \<or> v = CHR ''q'' \<or> v = CHR ''x''
        \<or> v = CHR ''X'' \<or> v = CHR ''T''" by simp
      then show ?thesis using True IH by (simp add: doPrintf_verb)
    qed
  qed
qed

lemma DiffMessage_sequential:
  "verbs_only wantFormat \<Longrightarrow>
   DiffMessage E got wantFormat a =
     ''got error '' @ Sprintf E ''%v'' [any_of got] @ ''; want '' @ Sprintf E wantFormat a"
  using doPrintf_shift [of wantFormat E "any_of got" a 0]
  by (simp add: DiffMessage_unfold Sprintf_def Sprintf_v [unfolded Sprintf_def])

text \<open>The six calls of \<open>DiffMessage\<close> in the package.\<close>

lemma DiffMessage_nil:
  "DiffMessage E got ''nil'' [] = ''got error '' @ print_v (any_of got) @ ''; want nil''"
  by (simp add: DiffMessage_unfold doPrintf_literal)

lemma DiffMessage_Is:
  "DiffMessage E got ''error that Is() %v'' [any_of target] =
     ''got error '' @ print_v (any_of got) @ ''; want error that Is() '' @ print_v (any_of target)"
  by (simp add: DiffMessage_unfold doPrintf_literal doPrintf_verb printArg_v)

lemma DiffMessage_As_type:
  "DiffMessage E got ''error tree containing type %T'' [arg] =
     ''got error '' @ print_v (any_of got) @ ''; want error tree containing type '' @ type_String arg"
  by (simp add: DiffMessage_unfold doPrintf_literal doPrintf_verb printArg_T)

lemma DiffMessage_As_match:
  "DiffMessage E got ''%s'' [StrV d] = ''got error '' @ print_v (any_of got) @ ''; want '' @ d"
  by (simp add: DiffMessage_unfold doPrintf_literal doPrintf_verb printArg_s_string)

lemma DiffMessage_Equals:
  "DiffMessage E got ''== %v'' [any_of want] =
     ''got error '' @ print_v (any_of got) @ ''; want == '' @ print_v (any_of want)"
  by (simp add: DiffMessage_unfold doPrintf_literal doPrintf_verb printArg_v)

lemma DiffMessage_Contains:
  "DiffMessage E got ''containing substring %q'' [StrV substr] =
     ''got error '' @ print_v (any_of got) @ ''; want containing substring '' @
     strconv_Quote E substr"
  by (simp add: DiffMessage_unfold doPrintf_literal doPrintf_verb printArg_q_string)

text \<open>
  \<open>strconv.Quote\<close> on examples: escapes, a byte that is no UTF-8, runes of two, three and
  four bytes, printable or not.
\<close>

lemma strconv_Quote_examples:
  "strconv_Quote E [] = [CHR 0x22, CHR 0x22]"
  "strconv_Quote E ''foobar'' = [CHR 0x22] @ ''foobar'' @ [CHR 0x22]"
  "strconv_Quote E oddSubstr =
     [CHR 0x22, CHR 0x5C, CHR 0x22, CHR 0x5C, CHR 0x5C, CHR 0x5C, CHR ''n''] @
     [CHR 0x5C] @ ''xff'' @ [CHR 0x5C] @ ''u00a0'' @ [CHR 0xC3, CHR 0xA9, CHR 0x22]"
  "strconv_Quote E [CHR 0x07, CHR 0x09, CHR 0x01, CHR 0x7F] =
     [CHR 0x22, CHR 0x5C, CHR ''a'', CHR 0x5C, CHR ''t'', CHR 0x5C] @ ''x01'' @ [CHR 0x5C] @ ''x7f'' @ [CHR 0x22]"
  "\<not> IsPrint_table E 0x2028 \<Longrightarrow>
   strconv_Quote E [CHR 0xE2, CHR 0x80, CHR 0xA8] = [CHR 0x22, CHR 0x5C] @ ''u2028'' @ [CHR 0x22]"
  "IsPrint_table E 0x1F600 \<Longrightarrow>
   strconv_Quote E [CHR 0xF0, CHR 0x9F, CHR 0x98, CHR 0x80] =
     [CHR 0x22, CHR 0xF0, CHR 0x9F, CHR 0x98, CHR 0x80, CHR 0x22]"
  "strconv_Quote E [CHR 0xED, CHR 0xA0, CHR 0x80] =
     [CHR 0x22, CHR 0x5C] @ ''xed'' @ [CHR 0x5C] @ ''xa0'' @ [CHR 0x5C] @ ''x80'' @ [CHR 0x22]"
  by (simp_all add: strconv_Quote_def oddSubstr_def appendEscapedRune_def IsPrint_def
      lowerhex_def between_def byte_def)

text \<open>The \<open>==\<close> of two values: true only for equal lists of plain parts.\<close>

lemma values_eq_True_iff:
  "values_eq as bs = Inr True \<longleftrightarrow> as = bs \<and> list_all is_Plain as"
  by (induction as bs rule: values_eq.induct) auto

lemma values_eq_plain_left:
  "list_all is_Plain as \<Longrightarrow> values_eq as bs = Inr (as = bs)"
  by (induction as bs rule: values_eq.induct) auto

lemma values_eq_plain_right:
  "list_all is_Plain bs \<Longrightarrow> values_eq as bs = Inr (as = bs)"
  by (induction as bs rule: values_eq.induct) auto

lemma iface_eq_True_iff:
  "iface_eq a b = Inr True \<longleftrightarrow> identical a b \<and> (\<forall>x. a = Some x \<longrightarrow> plain x)"
  by (cases a; cases b) (auto simp: values_eq_True_iff same_value_def plain_def)

lemma iface_eq_True_identical: "iface_eq a b = Inr True \<Longrightarrow> identical a b"
  by (simp add: iface_eq_True_iff)

text \<open>When either side is \<open>nil\<close> or plain, \<open>==\<close> returns, and decides identity.\<close>

lemma iface_eq_plain:
  "a = None \<or> b = None \<or> (\<exists>x. a = Some x \<and> plain x) \<or> (\<exists>y. b = Some y \<and> plain y) \<Longrightarrow>
   iface_eq a b = Inr (identical a b)"
  by (cases a; cases b)
     (auto simp: same_value_def plain_def values_eq_plain_left values_eq_plain_right)

text \<open>Two errors of one uncomparable dynamic type: \<open>==\<close> panics.\<close>

lemma iface_eq_uncomparable:
  "dyn_type x = dyn_type y \<Longrightarrow> \<not> comparable (dyn_type x) \<Longrightarrow>
   iface_eq (Some x) (Some y) = Inl (UncomparableType (tname (dyn_type x)))"
  by simp

lemma firstTrue_returns:
  "\<forall>r \<in> set rs. \<exists>b. r = Inr b \<Longrightarrow> firstTrue rs = Inr (Inr True \<in> set rs)"
  by (induction rs rule: firstTrue.induct) auto

lemma errors_is_unfold:
  "errors_is E e target cmp =
     (case (if cmp then iface_eq (Some e) (Some target) else Inr False) of
        Inl p \<Rightarrow> Inl p
      | Inr True \<Rightarrow> Inr True
      | Inr False \<Rightarrow>
          if Is_method E e target then Inr True
          else firstTrue (map (\<lambda>u. errors_is E u target cmp) (Unwrap e)))"
  by (cases e) (simp split: sum.splits bool.splits)

lemma unwraps_to_code [code]:
  "unwraps_to e c \<longleftrightarrow> e = c \<or> list_ex (\<lambda>u. unwraps_to u c) (Unwrap e)"
  by (auto simp: list_ex_iff intro: unwraps_to.intros elim: unwraps_to.cases)

lemma unwraps_to_unfold:
  "unwraps_to e c \<longleftrightarrow> e = c \<or> (\<exists>u \<in> set (Unwrap e). unwraps_to u c)"
  by (auto intro: unwraps_to.intros elim: unwraps_to.cases)

lemma unwraps_to_leaf: "Unwrap e = [] \<Longrightarrow> unwraps_to e c \<longleftrightarrow> e = c"
  by (subst unwraps_to_unfold) simp

text \<open>
  \<open>errors.is\<close> when no comparison can panic (the target's type is not comparable, so
  nothing is compared, or the target is plain): it returns, and it is true exactly when
  some error of the chain is identical to the target, the target's type being
  comparable, or has an \<open>Is\<close> method that accepts it.
\<close>

lemma errors_is_iff:
  "(cmp \<longrightarrow> plain t) \<Longrightarrow>
   errors_is E e t cmp =
     Inr (\<exists>c. unwraps_to e c \<and> ((cmp \<and> same_value c t) \<or> Is_method E c t))"
proof (induction E e t cmp rule: errors_is.induct)
  case (1 E ty v m us target cmp)
  let ?e = "Err ty v m us"
  let ?P = "\<lambda>e. \<exists>c. unwraps_to e c \<and> ((cmp \<and> same_value c target) \<or> Is_method E c target)"
  have eq: "(if cmp then iface_eq (Some ?e) (Some target) else Inr False)
            = Inr (cmp \<and> same_value ?e target)"
    using "1.prems" iface_eq_plain [of "Some ?e" "Some target"] by auto
  show ?case
  proof (cases "(cmp \<and> same_value ?e target) \<or> Is_method E ?e target")
    case True
    then have "?P ?e" using unwraps_to.here by blast
    moreover have "errors_is E ?e target cmp = Inr True"
      using True eq by (auto simp del: iface_eq.simps split: bool.splits)
    ultimately show ?thesis by simp
  next
    case False
    then have here: "\<not> (cmp \<and> same_value ?e target)" "\<not> Is_method E ?e target" by auto
    have eqF: "(if cmp then iface_eq (Some ?e) (Some target) else Inr False) = Inr False"
      using eq here by simp
    have IH: "errors_is E u target cmp = Inr (?P u)" if "u \<in> set us" for u
      using "1.IH" [OF eqF refl here(2) that "1.prems"] .
    have "firstTrue (map (\<lambda>u. errors_is E u target cmp) us)
          = Inr (Inr True \<in> set (map (\<lambda>u. errors_is E u target cmp) us))"
      by (rule firstTrue_returns) (auto simp: IH)
    also have "(Inr True \<in> set (map (\<lambda>u. errors_is E u target cmp) us)) = (\<exists>u \<in> set us. ?P u)"
      by (auto simp: IH image_iff)
    finally have ft: "firstTrue (map (\<lambda>u. errors_is E u target cmp) us) = Inr (\<exists>u \<in> set us. ?P u)" .
    have "errors_is E ?e target cmp = Inr (\<exists>u \<in> set us. ?P u)"
      using eqF here ft by (simp del: iface_eq.simps)
    moreover have "?P ?e \<longleftrightarrow> (\<exists>u \<in> set us. ?P u)"
    proof
      assume "?P ?e"
      then obtain c where c: "unwraps_to ?e c" "(cmp \<and> same_value c target) \<or> Is_method E c target"
        by blast
      from c(1) have "?e = c \<or> (\<exists>u \<in> set us. unwraps_to u c)"
        by (subst (asm) unwraps_to_unfold) simp
      with c(2) False show "\<exists>u \<in> set us. ?P u" by blast
    next
      assume "\<exists>u \<in> set us. ?P u"
      then obtain u c where "u \<in> set us" "unwraps_to u c"
        "(cmp \<and> same_value c target) \<or> Is_method E c target" by blast
      then show "?P ?e" using unwraps_to.step [of u ?e c] by auto
    qed
    ultimately show ?thesis by simp
  qed
qed

lemma errors_Is_iff:
  "target = None \<or> (\<exists>t. target = Some t \<and> (plain t \<or> \<not> comparable (dyn_type t))) \<Longrightarrow>
   errors_Is E got target =
     Inr ((got = None \<and> target = None) \<or>
          (\<exists>e t c. got = Some e \<and> target = Some t \<and> unwraps_to e c \<and>
             ((comparable (dyn_type t) \<and> same_value c t) \<or> Is_method E c t)))"
proof (cases got; cases target)
  fix e t assume gt: "got = Some e" "target = Some t"
  assume "target = None \<or> (\<exists>t. target = Some t \<and> (plain t \<or> \<not> comparable (dyn_type t)))"
  with gt have "comparable (dyn_type t) \<longrightarrow> plain t" by auto
  from errors_is_iff [OF this, of E e] gt show ?thesis by simp
qed auto

text \<open>\<open>strings.Contains\<close> decides whether the substring occurs.\<close>

lemma take_length_prefix: "take (length p) s = p \<longleftrightarrow> (\<exists>t. s = p @ t)"
  by (metis append_eq_conv_conj append_take_drop_id)

lemma strings_Contains_iff:
  "strings_Contains s substr \<longleftrightarrow> (\<exists>pre post. s = pre @ substr @ post)"
proof (induction s)
  case Nil
  then show ?case by simp
next
  case (Cons c s)
  show ?case
  proof
    assume "strings_Contains (c # s) substr"
    then consider "take (length substr) (c # s) = substr" | "strings_Contains s substr" by auto
    then show "\<exists>pre post. c # s = pre @ substr @ post"
    proof cases
      case 1
      then obtain t where "c # s = substr @ t" using take_length_prefix by blast
      then have "c # s = [] @ substr @ t" by simp
      then show ?thesis by blast
    next
      case 2
      then obtain pre post where "s = pre @ substr @ post" using Cons.IH by blast
      then have "c # s = (c # pre) @ substr @ post" by simp
      then show ?thesis by blast
    qed
  next
    assume "\<exists>pre post. c # s = pre @ substr @ post"
    then obtain pre post where pp: "c # s = pre @ substr @ post" by blast
    show "strings_Contains (c # s) substr"
    proof (cases pre)
      case Nil
      with pp have "take (length substr) (c # s) = substr" by (simp add: take_length_prefix)
      then show ?thesis by simp
    next
      case (Cons d pre')
      with pp have "s = pre' @ substr @ post" by simp
      then show ?thesis using Cons.IH by auto
    qed
  qed
qed

lemma firstSome_None_iff: "firstSome xs = None \<longleftrightarrow> (\<forall>x \<in> set xs. x = None)"
  by (induction xs rule: firstSome.induct) auto

lemma errors_as_unfold:
  "errors_as E e T =
     (if AssignableTo (dyn_type e) T then Some e
      else case As_method E e T of
             Some x \<Rightarrow> Some x
           | None \<Rightarrow> firstSome (map (\<lambda>u. errors_as E u T) (Unwrap e)))"
  by (cases e) (simp split: option.splits)

text \<open>
  \<open>errors.As\<close> fails exactly when no error of the chain is assignable to the type or has
  an \<open>As\<close> method that accepts it.
\<close>

lemma errors_as_None_iff:
  "errors_as E e T = None \<longleftrightarrow>
     (\<forall>c. unwraps_to e c \<longrightarrow> \<not> AssignableTo (dyn_type c) T \<and> As_method E c T = None)"
proof (induction E e T rule: errors_as.induct)
  case (1 E ty v m us T)
  let ?e = "Err ty v m us"
  let ?Q = "\<lambda>e. \<forall>c. unwraps_to e c \<longrightarrow> \<not> AssignableTo (dyn_type c) T \<and> As_method E c T = None"
  show ?case
  proof (cases "AssignableTo ty T \<or> As_method E ?e T \<noteq> None")
    case True
    then have "errors_as E ?e T \<noteq> None" by (auto split: option.splits)
    moreover have "\<not> ?Q ?e" using True unwraps_to.here [of ?e] by force
    ultimately show ?thesis by blast
  next
    case False
    then have na: "\<not> AssignableTo ty T" and nm: "As_method E ?e T = None" by auto
    have IH: "errors_as E u T = None \<longleftrightarrow> ?Q u" if "u \<in> set us" for u
      using "1.IH" [OF na nm that] .
    have "errors_as E ?e T = None \<longleftrightarrow> (\<forall>u \<in> set us. errors_as E u T = None)"
      using na nm by (simp add: firstSome_None_iff)
    also have "\<dots> \<longleftrightarrow> (\<forall>u \<in> set us. ?Q u)" using IH by blast
    also have "\<dots> \<longleftrightarrow> ?Q ?e"
    proof
      assume A: "\<forall>u \<in> set us. ?Q u"
      show "?Q ?e"
      proof (intro allI impI)
        fix c assume "unwraps_to ?e c"
        then have "?e = c \<or> (\<exists>u \<in> set us. unwraps_to u c)"
          by (subst (asm) unwraps_to_unfold) simp
        then show "\<not> AssignableTo (dyn_type c) T \<and> As_method E c T = None"
          using A na nm by auto
      qed
    next
      assume Q: "?Q ?e"
      show "\<forall>u \<in> set us. ?Q u"
      proof (intro ballI allI impI)
        fix u c assume "u \<in> set us" "unwraps_to u c"
        then have "unwraps_to ?e c" using unwraps_to.step [of u ?e c] by simp
        with Q show "\<not> AssignableTo (dyn_type c) T \<and> As_method E c T = None" by blast
      qed
    qed
    finally show ?thesis .
  qed
qed

lemma errors_As_None_iff:
  "errors_As E got T = None \<longleftrightarrow>
     (\<forall>e c. got = Some e \<and> unwraps_to e c \<longrightarrow>
        \<not> AssignableTo (dyn_type c) T \<and> As_method E c T = None)"
  by (cases got) (auto simp: errors_as_None_iff)

lemma firstTrue_True: "firstTrue rs = Inr True \<Longrightarrow> Inr True \<in> set rs"
  by (induction rs rule: firstTrue.induct) auto

text \<open>
  Whatever the target, \<open>errors.is\<close> returns true only when some error of the chain is
  identical to the target, the target's type being comparable, or has an \<open>Is\<close> method
  that accepts it.
\<close>

lemma errors_is_True:
  "errors_is E e t cmp = Inr True \<Longrightarrow>
   \<exists>c. unwraps_to e c \<and> ((cmp \<and> same_value c t) \<or> Is_method E c t)"
proof (induction E e t cmp rule: errors_is.induct)
  case (1 E ty v m us target cmp)
  let ?e = "Err ty v m us"
  let ?c = "if cmp then iface_eq (Some ?e) (Some target) else Inr False"
  show ?case
  proof (cases "(cmp \<and> same_value ?e target) \<or> Is_method E ?e target")
    case True
    then show ?thesis using unwraps_to.here by blast
  next
    case False
    then have here: "\<not> (cmp \<and> same_value ?e target)" "\<not> Is_method E ?e target" by auto
    have notTrue: "?c \<noteq> Inr True"
      using here(1) iface_eq_True_identical [of "Some ?e" "Some target"] by auto
    from "1.prems" have ret: "\<exists>b. ?c = Inr b"
      by (cases ?c) (simp_all del: iface_eq.simps)
    with notTrue have eqF: "?c = Inr False" by auto
    with "1.prems" here have "firstTrue (map (\<lambda>u. errors_is E u target cmp) us) = Inr True"
      by (simp del: iface_eq.simps)
    then have "Inr True \<in> set (map (\<lambda>u. errors_is E u target cmp) us)" by (rule firstTrue_True)
    then obtain u where u: "u \<in> set us" "errors_is E u target cmp = Inr True" by auto
    from "1.IH" [OF eqF refl here(2) u(1) u(2)]
    obtain c where "unwraps_to u c" "(cmp \<and> same_value c target) \<or> Is_method E c target" by blast
    then show ?thesis using unwraps_to.step [of u ?e c] u(1) by auto
  qed
qed

lemma errors_Is_True:
  "errors_Is E got target = Inr True \<Longrightarrow>
   (got = None \<and> target = None) \<or>
   (\<exists>e t c. got = Some e \<and> target = Some t \<and> unwraps_to e c \<and>
      ((comparable (dyn_type t) \<and> same_value c t) \<or> Is_method E c t))"
  by (cases got; cases target) (auto dest: errors_is_True)

section \<open>What the matchers return\<close>

text \<open>Each matcher with its call of \<open>DiffMessage\<close> evaluated.\<close>

lemma ErrDiff_Is:
  "ErrDiff (Is E target) got =
     (case errors_Is E got target of
        Inl p \<Rightarrow> Inl p
      | Inr True \<Rightarrow> Inr []
      | Inr False \<Rightarrow>
          Inr (''got error '' @ print_v (any_of got) @ ''; want error that Is() '' @
               print_v (any_of target)))"
  by (simp add: Is_def DiffMessage_Is split: sum.splits bool.splits)

lemma ErrDiff_Equals:
  "ErrDiff (Equals E want) got =
     (case iface_eq got want of
        Inl p \<Rightarrow> Inl p
      | Inr True \<Rightarrow> Inr []
      | Inr False \<Rightarrow> Inr (''got error '' @ print_v (any_of got) @ ''; want == '' @ print_v (any_of want)))"
  by (simp add: Equals_def DiffMessage_Equals split: sum.splits bool.splits)

lemma ErrDiff_Contains:
  "ErrDiff (Contains E substr) got =
     (if (case got of None \<Rightarrow> False | Some e \<Rightarrow> strings_Contains (Error e) substr) then Inr []
      else Inr (''got error '' @ print_v (any_of got) @ ''; want containing substring '' @
                strconv_Quote E substr))"
  by (simp add: Contains_def DiffMessage_Contains)

lemma ErrDiff_As:
  "ErrDiff (As E T match) got =
     (case errors_As E got T of
        None \<Rightarrow> Inr (''got error '' @ print_v (any_of got) @ ''; want error tree containing type '' @ type_String (any_of (zero_value T)))
      | Some target \<Rightarrow>
          (if match target \<noteq> [] then Inr (''got error '' @ print_v (any_of got) @ ''; want '' @ match target) else Inr []))"
  by (simp add: As_def DiffMessage_As_type DiffMessage_As_match Let_def split: option.splits)

text \<open>The errors of the example are plain, and so is every pointer.\<close>

lemma plain_examples:
  "plain (errors_New addr text)" "plain (wrapError addr msg err)" "plain (myError val text)"
  "plain errUhOh" "plain errWrapped" "plain errOther" "plain errUhOh2" "plain err42" "plain err43"
  "\<not> plain sliceError" "\<not> plain causeError" "\<not> plain floatError"
  by (simp_all add: plain_def errors_New_def wrapError_def myError_def errUhOh_def errWrapped_def
      errOther_def errUhOh2_def err42_def err43_def sliceError_def causeError_def floatError_def)

section \<open>The package's example\<close>

text \<open>
  The thirteen cases of \<open>ExampleDiff\<close> in \<open>testerr_test.go\<close>, with the output that the
  example expects of each.
\<close>

lemma example_Diff:
  "Diff env0 None None = Inr [] \<and>
   Diff env0 (Some errUhOh) None = Inr ''got error uh oh; want nil'' \<and>
   Diff env0 (Some errUhOh) (Some (Equals env0 (Some errUhOh))) = Inr [] \<and>
   Diff env0 (Some errWrapped) (Some (Equals env0 (Some errUhOh))) =
     Inr ''got error wrapped(uh oh); want == uh oh'' \<and>
   Diff env0 (Some errWrapped) (Some (Is env0 (Some errUhOh))) = Inr [] \<and>
   Diff env0 (Some errUhOh) (Some (Is env0 (Some errUhOh))) = Inr [] \<and>
   Diff env0 (Some errOther) (Some (Is env0 (Some errUhOh))) =
     Inr ''got error something else; want error that Is() uh oh'' \<and>
   Diff env0 (Some errUhOh) (Some (Contains env0 ''uh'')) = Inr [] \<and>
   Diff env0 (Some errUhOh) (Some (Contains env0 ''foobar'')) =
     Inr (''got error uh oh; want containing substring '' @ [CHR 0x22] @ ''foobar'' @ [CHR 0x22]) \<and>
   Diff env0 None (Some (Contains env0 [])) =
     Inr (''got error <nil>; want containing substring '' @ [CHR 0x22, CHR 0x22]) \<and>
   Diff env0 (Some err42) (Some (As env0 myErrorT match42)) = Inr [] \<and>
   Diff env0 (Some err43) (Some (As env0 myErrorT match42)) =
     Inr ''got error val 43 is not good; want 42 (of course)'' \<and>
   Diff env0 (Some errUhOh) (Some (As env0 myErrorT match42)) =
     Inr ''got error uh oh; want error tree containing type testerr_test.myError''"
proof -
  note defs = Diff_def errUhOh_def errWrapped_def errOther_def errors_New_def wrapError_def
    env0_def err42_def err43_def myError_def myErrorT_def match42_def
  have "Diff env0 None None = Inr []" by (simp add: Diff_def)
  moreover have "Diff env0 (Some errUhOh) None = Inr ''got error uh oh; want nil''"
    by (simp add: defs DiffMessage_nil)
  moreover have "Diff env0 (Some errUhOh) (Some (Equals env0 (Some errUhOh))) = Inr []"
    by (simp add: defs ErrDiff_Equals)
  moreover have "Diff env0 (Some errWrapped) (Some (Equals env0 (Some errUhOh))) =
     Inr ''got error wrapped(uh oh); want == uh oh''"
    by (simp add: defs ErrDiff_Equals)
  moreover have "Diff env0 (Some errWrapped) (Some (Is env0 (Some errUhOh))) = Inr []"
    by (simp add: defs ErrDiff_Is)
  moreover have "Diff env0 (Some errUhOh) (Some (Is env0 (Some errUhOh))) = Inr []"
    by (simp add: defs ErrDiff_Is)
  moreover have "Diff env0 (Some errOther) (Some (Is env0 (Some errUhOh))) =
     Inr ''got error something else; want error that Is() uh oh''"
    by (simp add: defs ErrDiff_Is)
  moreover have "Diff env0 (Some errUhOh) (Some (Contains env0 ''uh'')) = Inr []"
    by (simp add: defs ErrDiff_Contains)
  moreover have "Diff env0 (Some errUhOh) (Some (Contains env0 ''foobar'')) =
     Inr (''got error uh oh; want containing substring '' @ [CHR 0x22] @ ''foobar'' @ [CHR 0x22])"
    by (simp add: Diff_def errUhOh_def errors_New_def ErrDiff_Contains strconv_Quote_examples)
  moreover have "Diff env0 None (Some (Contains env0 [])) =
     Inr (''got error <nil>; want containing substring '' @ [CHR 0x22, CHR 0x22])"
    by (simp add: Diff_def ErrDiff_Contains strconv_Quote_examples)
  moreover have "Diff env0 (Some err42) (Some (As env0 myErrorT match42)) = Inr []"
    by (simp add: defs ErrDiff_As)
  moreover have "Diff env0 (Some err43) (Some (As env0 myErrorT match42)) =
     Inr ''got error val 43 is not good; want 42 (of course)''"
    by (simp add: defs ErrDiff_As)
  moreover have "Diff env0 (Some errUhOh) (Some (As env0 myErrorT match42)) =
     Inr ''got error uh oh; want error tree containing type testerr_test.myError''"
    by (simp add: defs ErrDiff_As)
  ultimately show ?thesis by (intro conjI)
qed

section \<open>The entry point\<close>

text \<open>
  Claim C1. With no \<open>Want\<close>, \<open>Diff\<close> returns the empty string exactly when the observed
  error is \<open>nil\<close>; for an observed error \<open>e\<close> it returns what \<open>DiffMessage\<close> builds from the
  description \<open>nil\<close>, which is \<open>got error\<close>, the text of \<open>e\<close>, and \<open>; want nil\<close>.
\<close>

theorem Diff_without_want:
  "(Diff E got None = Inr [] \<longleftrightarrow> got = None) \<and>
   Diff E (Some e) None = Inr (DiffMessage E (Some e) ''nil'' []) \<and>
   DiffMessage E (Some e) ''nil'' [] = ''got error '' @ Error e @ ''; want nil''"
  by (simp add: Diff_def DiffMessage_nil DiffMessage_nonempty)

theorem Diff_without_want_witness:
  "Diff env0 None None = Inr [] \<and> Diff env0 (Some errUhOh) None = Inr ''got error uh oh; want nil''"
  using Diff_without_want [of env0 None errUhOh]
  by (simp add: errUhOh_def errors_New_def)

text \<open>
  Claim C10. \<open>Equals(nil)\<close> and \<open>Is(nil)\<close> accept the absence of an error: on a \<open>nil\<close>
  observed error both return the empty string.
\<close>

theorem nil_parameter_accepts_nil:
  "ErrDiff (Equals E None) None = Inr [] \<and> ErrDiff (Is E None) None = Inr []"
  by (simp add: Equals_def Is_def)

section \<open>Wrapped-chain membership\<close>

text \<open>
  Claim C3, as the code has it. Whatever the target, \<open>Is(target)\<close> returns the empty
  string only when both errors are \<open>nil\<close>, or both are not and some error of the observed
  chain (the observed error or one reached from it by unwrapping) is identical to the
  target, the target's dynamic type being comparable, or has an \<open>Is\<close> method that accepts
  the target. For a target that is \<open>nil\<close>, plain, or of a dynamic type that is not
  comparable, the call returns, and it returns the empty string exactly in that case.
  In particular a plain target is matched by itself and by every error that wraps it, and
  an error whose chain holds nothing that is identical to such a target or accepts it is
  not matched, whatever its message. A mismatch that is reported has the description
  \<open>error that Is()\<close> followed by the target as \<open>%v\<close> prints it. For other targets the
  comparison need not decide identity: with a target of a comparable struct type whose
  field holds an error of a slice type, observed itself, the call panics; a target with a
  NaN field, observed itself, is not matched.
\<close>

theorem Is_matches_chain:
  "(ErrDiff (Is E target) got = Inr [] \<longrightarrow>
      (got = None \<and> target = None) \<or>
      (\<exists>e t c. got = Some e \<and> target = Some t \<and> unwraps_to e c \<and>
         ((comparable (dyn_type t) \<and> same_value c t) \<or> Is_method E c t))) \<and>
   (target = None \<or> (\<exists>t. target = Some t \<and> (plain t \<or> \<not> comparable (dyn_type t))) \<longrightarrow>
      (ErrDiff (Is E target) got = Inr [] \<or> mismatch (ErrDiff (Is E target) got)) \<and>
      (ErrDiff (Is E target) got = Inr [] \<longleftrightarrow>
         (got = None \<and> target = None) \<or>
         (\<exists>e t c. got = Some e \<and> target = Some t \<and> unwraps_to e c \<and>
            ((comparable (dyn_type t) \<and> same_value c t) \<or> Is_method E c t)))) \<and>
   (plain t \<and> unwraps_to e t \<longrightarrow> ErrDiff (Is E (Some t)) (Some e) = Inr []) \<and>
   ((plain t \<or> \<not> comparable (dyn_type t)) \<and>
    (\<forall>c. unwraps_to e c \<longrightarrow> \<not> same_value c t \<and> \<not> Is_method E c t) \<longrightarrow>
      ErrDiff (Is E (Some t)) (Some e) =
        Inr (''got error '' @ Error e @ ''; want error that Is() '' @ Error t)) \<and>
   (mismatch (ErrDiff (Is E target) got) \<longrightarrow>
      ErrDiff (Is E target) got =
        Inr (''got error '' @ print_v (any_of got) @ ''; want error that Is() '' @ print_v (any_of target))) \<and>
   ErrDiff (Is E (Some causeError)) (Some causeError) = Inl (UncomparableType ''main.sliceError'') \<and>
   ErrDiff (Is env0 (Some floatError)) (Some floatError) =
     Inr ''got error NaN; want error that Is() NaN''"
proof -
  let ?chain = "\<lambda>got target. (got = None \<and> target = None) \<or>
      (\<exists>e t c. got = Some e \<and> target = Some t \<and> unwraps_to e c \<and>
         ((comparable (dyn_type t) \<and> same_value c t) \<or> Is_method E c t))"
  let ?ok = "\<lambda>target. target = None \<or> (\<exists>t. target = Some t \<and> (plain t \<or> \<not> comparable (dyn_type t)))"
  have ret: "ErrDiff (Is E target) got = Inr [] \<longleftrightarrow> errors_Is E got target = Inr True"
    for got target
    by (simp add: ErrDiff_Is split: sum.splits bool.splits)
  have sound: "ErrDiff (Is E target) got = Inr [] \<longrightarrow> ?chain got target"
    using errors_Is_True [of E got target] by (simp only: ret) blast
  have decided: "errors_Is E got target = Inr (?chain got target)" if "?ok target" for got target
    using errors_Is_iff [OF that, of E got] .
  have total: "?ok target \<longrightarrow>
      (ErrDiff (Is E target) got = Inr [] \<or> mismatch (ErrDiff (Is E target) got)) \<and>
      (ErrDiff (Is E target) got = Inr [] \<longleftrightarrow> ?chain got target)"
  proof
    assume ok: "?ok target"
    show "(ErrDiff (Is E target) got = Inr [] \<or> mismatch (ErrDiff (Is E target) got)) \<and>
      (ErrDiff (Is E target) got = Inr [] \<longleftrightarrow> ?chain got target)"
      by (simp only: ret ErrDiff_Is decided [OF ok]) (simp add: mismatch_def split: bool.splits)
  qed
  have wraps: "plain t \<and> unwraps_to e t \<longrightarrow> ErrDiff (Is E (Some t)) (Some e) = Inr []"
  proof
    assume h: "plain t \<and> unwraps_to e t"
    then have ok: "?ok (Some t)" by simp
    from h have "comparable (dyn_type t)" by (simp add: plain_def)
    with h have "?chain (Some e) (Some t)" by (auto simp: same_value_def)
    then have "errors_Is E (Some e) (Some t) = Inr True"
      using decided [OF ok, of "Some e"] by (simp del: errors_Is.simps)
    then show "ErrDiff (Is E (Some t)) (Some e) = Inr []"
      by (simp only: ret)
  qed
  have unrelated: "(plain t \<or> \<not> comparable (dyn_type t)) \<and>
    (\<forall>c. unwraps_to e c \<longrightarrow> \<not> same_value c t \<and> \<not> Is_method E c t) \<longrightarrow>
      ErrDiff (Is E (Some t)) (Some e) =
        Inr (''got error '' @ Error e @ ''; want error that Is() '' @ Error t)"
  proof
    assume h: "(plain t \<or> \<not> comparable (dyn_type t)) \<and>
      (\<forall>c. unwraps_to e c \<longrightarrow> \<not> same_value c t \<and> \<not> Is_method E c t)"
    then have ok: "?ok (Some t)" by simp
    from h have "\<not> ?chain (Some e) (Some t)" by auto
    then have "errors_Is E (Some e) (Some t) = Inr False"
      using decided [OF ok, of "Some e"] by (simp del: errors_Is.simps)
    then show "ErrDiff (Is E (Some t)) (Some e) =
        Inr (''got error '' @ Error e @ ''; want error that Is() '' @ Error t)"
      by (simp add: ErrDiff_Is del: errors_Is.simps)
  qed
  have message: "mismatch (ErrDiff (Is E target) got) \<longrightarrow>
      ErrDiff (Is E target) got =
        Inr (''got error '' @ print_v (any_of got) @ ''; want error that Is() '' @ print_v (any_of target))"
    by (simp add: ErrDiff_Is mismatch_def split: sum.splits bool.splits)
  have boxed: "ErrDiff (Is E (Some causeError)) (Some causeError) =
      Inl (UncomparableType ''main.sliceError'')"
    by (simp add: ErrDiff_Is causeError_def)
  have nan: "ErrDiff (Is env0 (Some floatError)) (Some floatError) =
      Inr ''got error NaN; want error that Is() NaN''"
    by (simp add: ErrDiff_Is floatError_def env0_def)
  from sound total wraps unrelated message boxed nan show ?thesis by (intro conjI)
qed

text \<open>
  The two matches and the mismatch of the example; a second \<open>errors.New("uh oh")\<close>: same
  message, another error, no match; and a target of a slice type, which nothing matches.
\<close>

theorem Is_matches_chain_witness:
  "ErrDiff (Is env0 (Some errUhOh)) (Some errUhOh) = Inr [] \<and>
   ErrDiff (Is env0 (Some errUhOh)) (Some errWrapped) = Inr [] \<and>
   Error errUhOh2 = Error errUhOh \<and>
   ErrDiff (Is env0 (Some errUhOh)) (Some errUhOh2) =
     Inr ''got error uh oh; want error that Is() uh oh'' \<and>
   ErrDiff (Is env0 (Some errUhOh)) (Some errOther) =
     Inr ''got error something else; want error that Is() uh oh'' \<and>
   ErrDiff (Is env0 (Some sliceError)) (Some errWrapped) =
     Inr ''got error wrapped(uh oh); want error that Is() boom''"
proof -
  have pl: "plain errUhOh" by (rule plain_examples)
  have ok: "Some errUhOh = None \<or>
      (\<exists>t. Some errUhOh = Some t \<and> (plain t \<or> \<not> comparable (dyn_type t)))"
    using pl by simp
  have a: "unwraps_to errUhOh errUhOh" by (rule unwraps_to.here)
  have b: "unwraps_to errWrapped errUhOh"
    by (rule unwraps_to.step [OF _ unwraps_to.here]) (simp add: errWrapped_def wrapError_def)
  have c: "\<forall>c. unwraps_to errUhOh2 c \<longrightarrow> \<not> same_value c errUhOh \<and> \<not> Is_method env0 c errUhOh"
    by (simp add: unwraps_to_leaf errUhOh2_def errUhOh_def errors_New_def env0_def same_value_def)
  have d: "\<not> ((Some errOther = None \<and> Some errUhOh = None) \<or>
      (\<exists>e t c. Some errOther = Some e \<and> Some errUhOh = Some t \<and> unwraps_to e c \<and>
         ((comparable (dyn_type t) \<and> same_value c t) \<or> Is_method env0 c t)))"
    by (simp add: unwraps_to_leaf errOther_def errUhOh_def errors_New_def env0_def same_value_def)
  have s: "\<not> comparable (dyn_type sliceError)" by (simp add: sliceError_def)
  have w: "\<forall>c. unwraps_to errWrapped c \<longrightarrow> \<not> same_value c sliceError \<and> \<not> Is_method env0 c sliceError"
  proof (intro allI impI)
    fix c assume "unwraps_to errWrapped c"
    then have "c = errWrapped \<or> c = errUhOh"
      by (subst (asm) unwraps_to_unfold)
         (auto simp: errWrapped_def wrapError_def errUhOh_def errors_New_def unwraps_to_leaf)
    then show "\<not> same_value c sliceError \<and> \<not> Is_method env0 c sliceError"
      by (auto simp: errWrapped_def wrapError_def errUhOh_def errors_New_def sliceError_def
          same_value_def env0_def)
  qed
  have "ErrDiff (Is env0 (Some errUhOh)) (Some errUhOh) = Inr []"
    using Is_matches_chain [of env0 _ _ errUhOh errUhOh] pl a by blast
  moreover have "ErrDiff (Is env0 (Some errUhOh)) (Some errWrapped) = Inr []"
    using Is_matches_chain [of env0 _ _ errUhOh errWrapped] pl b by blast
  moreover have "ErrDiff (Is env0 (Some errUhOh)) (Some errUhOh2) =
      Inr (''got error '' @ Error errUhOh2 @ ''; want error that Is() '' @ Error errUhOh)"
    using Is_matches_chain [of env0 _ _ errUhOh errUhOh2] pl c by blast
  moreover have "mismatch (ErrDiff (Is env0 (Some errUhOh)) (Some errOther))"
    using Is_matches_chain [of env0 "Some errUhOh" "Some errOther"] ok d by blast
  then have "ErrDiff (Is env0 (Some errUhOh)) (Some errOther) =
      Inr (''got error '' @ print_v (any_of (Some errOther)) @ ''; want error that Is() '' @
           print_v (any_of (Some errUhOh)))"
    using Is_matches_chain [of env0 "Some errUhOh" "Some errOther"] by blast
  moreover have "ErrDiff (Is env0 (Some sliceError)) (Some errWrapped) =
      Inr (''got error '' @ Error errWrapped @ ''; want error that Is() '' @ Error sliceError)"
    using Is_matches_chain [of env0 _ _ sliceError errWrapped] s w by blast
  moreover have "Error errUhOh2 = ''uh oh''" "Error errUhOh = ''uh oh''"
    "Error errOther = ''something else''" "Error errWrapped = ''wrapped(uh oh)''"
    "Error sliceError = ''boom''"
    by (simp_all add: errUhOh2_def errUhOh_def errOther_def errors_New_def errWrapped_def
        wrapError_def sliceError_def)
  ultimately show ?thesis by simp
qed

text \<open>
  The claim as it was stated, for every target, fails for a target whose dynamic type is
  not comparable: \<open>errors.Is\<close> never compares such a target with \<open>==\<close>, so without an \<open>Is\<close>
  method it does not match even itself.
\<close>

theorem Is_uncomparable_target_counterexample:
  "ErrDiff (Is env0 (Some sliceError)) (Some sliceError) =
     Inr ''got error boom; want error that Is() boom''"
  by (simp add: ErrDiff_Is sliceError_def env0_def)

section \<open>Identity\<close>

text \<open>
  Claim C5, as the code has it. \<open>Equals(want)\<close> returns the empty string exactly when the
  observed error is identical to the parameter (both \<open>nil\<close>, or of the same dynamic type
  and the same value) and, if not \<open>nil\<close>, plain. When either of the two is \<open>nil\<close> or
  plain, the call returns: the empty string exactly when they are identical, and
  otherwise the diagnostic whose description is \<open>==\<close> followed by the parameter as \<open>%v\<close>
  prints it. An error that wraps the parameter, directly or through other errors, and is
  not identical to it is not accepted. A mismatch that is reported has that description.
  Between other errors the comparison need not decide identity: two errors of the same
  dynamic type, when that type is not comparable, make the call panic; so does an error of
  a comparable struct type whose field holds an error of a slice type, compared with
  itself; and an error with a NaN field, compared with itself, is reported as a mismatch.
\<close>

theorem Equals_compares_identity:
  "(ErrDiff (Equals E want) got = Inr [] \<longleftrightarrow>
      identical got want \<and> (\<forall>x. got = Some x \<longrightarrow> plain x)) \<and>
   (got = None \<or> want = None \<or> (\<exists>x. got = Some x \<and> plain x) \<or> (\<exists>y. want = Some y \<and> plain y) \<longrightarrow>
      (ErrDiff (Equals E want) got = Inr [] \<longleftrightarrow> identical got want) \<and>
      (\<not> identical got want \<longrightarrow>
         ErrDiff (Equals E want) got =
           Inr (''got error '' @ print_v (any_of got) @ ''; want == '' @ print_v (any_of want)))) \<and>
   (u \<in> set (Unwrap e) \<and> unwraps_to u w \<and> \<not> same_value e w \<longrightarrow>
      ErrDiff (Equals E (Some w)) (Some e) \<noteq> Inr []) \<and>
   (mismatch (ErrDiff (Equals E want) got) \<longrightarrow>
      ErrDiff (Equals E want) got =
        Inr (''got error '' @ print_v (any_of got) @ ''; want == '' @ print_v (any_of want))) \<and>
   (dyn_type x = dyn_type y \<and> \<not> comparable (dyn_type x) \<longrightarrow>
      ErrDiff (Equals E (Some y)) (Some x) = Inl (UncomparableType (tname (dyn_type x)))) \<and>
   ErrDiff (Equals E (Some causeError)) (Some causeError) = Inl (UncomparableType ''main.sliceError'') \<and>
   ErrDiff (Equals E (Some floatError)) (Some floatError) = Inr ''got error NaN; want == NaN''"
proof -
  have ret: "ErrDiff (Equals E want) got = Inr [] \<longleftrightarrow> iface_eq got want = Inr True"
    for got want
    by (simp add: ErrDiff_Equals split: sum.splits bool.splits)
  have sound: "ErrDiff (Equals E want) got = Inr [] \<longrightarrow> identical got want" for got want
    using iface_eq_True_identical [of got want] by (simp only: ret) blast
  have decided: "got = None \<or> want = None \<or> (\<exists>x. got = Some x \<and> plain x) \<or>
      (\<exists>y. want = Some y \<and> plain y) \<longrightarrow>
      (ErrDiff (Equals E want) got = Inr [] \<longleftrightarrow> identical got want) \<and>
      (\<not> identical got want \<longrightarrow>
         ErrDiff (Equals E want) got =
           Inr (''got error '' @ print_v (any_of got) @ ''; want == '' @ print_v (any_of want)))"
  proof
    assume "got = None \<or> want = None \<or> (\<exists>x. got = Some x \<and> plain x) \<or>
      (\<exists>y. want = Some y \<and> plain y)"
    then have eq: "iface_eq got want = Inr (identical got want)" by (rule iface_eq_plain)
    show "(ErrDiff (Equals E want) got = Inr [] \<longleftrightarrow> identical got want) \<and>
      (\<not> identical got want \<longrightarrow>
         ErrDiff (Equals E want) got =
           Inr (''got error '' @ print_v (any_of got) @ ''; want == '' @ print_v (any_of want)))"
      by (simp only: ErrDiff_Equals eq) (simp split: bool.splits)
  qed
  have wrapper: "u \<in> set (Unwrap e) \<and> unwraps_to u w \<and> \<not> same_value e w \<longrightarrow>
      ErrDiff (Equals E (Some w)) (Some e) \<noteq> Inr []"
    using sound [of "Some w" "Some e"] by auto
  have message: "mismatch (ErrDiff (Equals E want) got) \<longrightarrow>
      ErrDiff (Equals E want) got =
        Inr (''got error '' @ print_v (any_of got) @ ''; want == '' @ print_v (any_of want))"
    by (simp add: ErrDiff_Equals mismatch_def split: sum.splits bool.splits)
  have exact: "ErrDiff (Equals E want) got = Inr [] \<longleftrightarrow>
      identical got want \<and> (\<forall>x. got = Some x \<longrightarrow> plain x)"
    by (simp only: ret iface_eq_True_iff)
  have panics: "dyn_type x = dyn_type y \<and> \<not> comparable (dyn_type x) \<longrightarrow>
      ErrDiff (Equals E (Some y)) (Some x) = Inl (UncomparableType (tname (dyn_type x)))"
    by (auto simp: ErrDiff_Equals)
  have boxed: "ErrDiff (Equals E (Some causeError)) (Some causeError) =
      Inl (UncomparableType ''main.sliceError'')"
    by (simp add: ErrDiff_Equals causeError_def)
  have nan: "ErrDiff (Equals E (Some floatError)) (Some floatError) =
      Inr ''got error NaN; want == NaN''"
    by (simp add: ErrDiff_Equals floatError_def)
  from exact decided wrapper message panics boxed nan show ?thesis by (intro conjI)
qed

theorem Equals_compares_identity_witness:
  "ErrDiff (Equals env0 (Some errUhOh)) (Some errUhOh) = Inr [] \<and>
   ErrDiff (Equals env0 (Some errUhOh)) (Some errWrapped) = Inr ''got error wrapped(uh oh); want == uh oh'' \<and>
   ErrDiff (Equals env0 (Some errUhOh)) (Some errWrapped) \<noteq> Inr [] \<and>
   ErrDiff (Equals env0 (Some errUhOh)) (Some errUhOh2) = Inr ''got error uh oh; want == uh oh'' \<and>
   ErrDiff (Equals env0 (Some causeError)) None = Inr ''got error <nil>; want == cause: boom'' \<and>
   ErrDiff (Equals env0 (Some floatError)) (Some floatError) \<noteq> Inr []"
proof -
  have n: "\<not> (identical (Some floatError) (Some floatError) \<and>
      (\<forall>x. Some floatError = Some x \<longrightarrow> plain x))"
    using plain_examples(12) by simp
  have a: "Some errUhOh = None \<or> Some errUhOh = None \<or> (\<exists>x. Some errUhOh = Some x \<and> plain x) \<or>
      (\<exists>y. Some errUhOh = Some y \<and> plain y)"
    using plain_examples(4) by simp
  have b: "Some errWrapped = None \<or> Some errUhOh = None \<or> (\<exists>x. Some errWrapped = Some x \<and> plain x) \<or>
      (\<exists>y. Some errUhOh = Some y \<and> plain y)"
    using plain_examples(4) by simp
  have b2: "Some errUhOh2 = None \<or> Some errUhOh = None \<or> (\<exists>x. Some errUhOh2 = Some x \<and> plain x) \<or>
      (\<exists>y. Some errUhOh = Some y \<and> plain y)"
    using plain_examples(4) by simp
  have b3: "None = None \<or> Some causeError = None \<or> (\<exists>x. None = Some x \<and> plain x) \<or>
      (\<exists>y. Some causeError = Some y \<and> plain y)"
    by simp
  have i: "identical (Some errUhOh) (Some errUhOh)" by (simp add: same_value_def)
  have c: "\<not> identical (Some errWrapped) (Some errUhOh)"
    by (simp add: same_value_def errUhOh_def errors_New_def errWrapped_def wrapError_def)
  have c2: "\<not> identical (Some errUhOh2) (Some errUhOh)"
    by (simp add: same_value_def errUhOh_def errUhOh2_def errors_New_def)
  have c3: "\<not> identical None (Some causeError)" by simp
  have d: "errUhOh \<in> set (Unwrap errWrapped) \<and> unwraps_to errUhOh errUhOh \<and>
      \<not> same_value errWrapped errUhOh"
    by (simp add: same_value_def errUhOh_def errors_New_def errWrapped_def wrapError_def
        unwraps_to.here)
  have "ErrDiff (Equals env0 (Some errUhOh)) (Some errUhOh) = Inr []"
    using Equals_compares_identity [of env0 "Some errUhOh" "Some errUhOh"] a i by blast
  moreover have "ErrDiff (Equals env0 (Some errUhOh)) (Some errWrapped) =
      Inr (''got error '' @ print_v (any_of (Some errWrapped)) @ ''; want == '' @ print_v (any_of (Some errUhOh)))"
    using Equals_compares_identity [of env0 "Some errUhOh" "Some errWrapped"] b c by blast
  moreover have "ErrDiff (Equals env0 (Some errUhOh)) (Some errWrapped) \<noteq> Inr []"
    using Equals_compares_identity [of env0 _ _ errUhOh errWrapped errUhOh] d by blast
  moreover have "ErrDiff (Equals env0 (Some errUhOh)) (Some errUhOh2) =
      Inr (''got error '' @ print_v (any_of (Some errUhOh2)) @ ''; want == '' @ print_v (any_of (Some errUhOh)))"
    using Equals_compares_identity [of env0 "Some errUhOh" "Some errUhOh2"] b2 c2 by blast
  moreover have "ErrDiff (Equals env0 (Some causeError)) None =
      Inr (''got error '' @ print_v (any_of None) @ ''; want == '' @ print_v (any_of (Some causeError)))"
    using Equals_compares_identity [of env0 "Some causeError" None] b3 c3 by blast
  moreover have "ErrDiff (Equals env0 (Some floatError)) (Some floatError) \<noteq> Inr []"
    using Equals_compares_identity [of env0 "Some floatError" "Some floatError"] n by blast
  moreover have "Error errWrapped = ''wrapped(uh oh)''" "Error errUhOh = ''uh oh''"
    "Error errUhOh2 = ''uh oh''" "Error causeError = ''cause: boom''"
    by (simp_all add: errUhOh_def errUhOh2_def errors_New_def errWrapped_def wrapError_def
        causeError_def)
  ultimately show ?thesis by simp
qed

text \<open>
  The claim as it was stated, for every pair of errors, fails when the observed error is
  the parameter and its type is not comparable: the call panics instead of returning the
  empty string.
\<close>

theorem Equals_uncomparable_counterexample:
  "identical (Some sliceError) (Some sliceError) \<and>
   ErrDiff (Equals env0 (Some sliceError)) (Some sliceError) = Inl (UncomparableType ''main.sliceError'') \<and>
   ErrDiff (Equals env0 (Some sliceError)) (Some sliceError) \<noteq> Inr []"
  by (simp add: ErrDiff_Equals sliceError_def same_value_def)

section \<open>Absence of an error\<close>

text \<open>
  Claim C7, as the code has it. \<open>Diff(nil, nil)\<close> is empty and \<open>Diff(got, nil)\<close> is a
  diagnostic for every error \<open>got\<close>. On a \<open>nil\<close> observed error \<open>Contains(s)\<close> and
  \<open>As[T](match)\<close> report a mismatch for every choice of their parameters, and \<open>Equals(w)\<close>
  and \<open>Is(t)\<close> report one for every parameter that is not \<open>nil\<close>.
\<close>

theorem absence_symmetry:
  "Diff E None None = Inr [] \<and>
   mismatch (Diff E (Some e) None) \<and>
   (want \<noteq> None \<longrightarrow> mismatch (Diff E None (Some (Equals E want)))) \<and>
   (target \<noteq> None \<longrightarrow> mismatch (Diff E None (Some (Is E target)))) \<and>
   mismatch (Diff E None (Some (Contains E substr))) \<and>
   mismatch (Diff E None (Some (As E T match)))"
proof (intro conjI impI)
  show "Diff E None None = Inr []" by (simp add: Diff_def)
  show "mismatch (Diff E (Some e) None)" by (simp add: Diff_def mismatch_def DiffMessage_nonempty)
  show "mismatch (Diff E None (Some (Contains E substr)))"
    by (simp add: Diff_def mismatch_def ErrDiff_Contains)
  show "mismatch (Diff E None (Some (As E T match)))"
    by (simp add: Diff_def mismatch_def ErrDiff_As)
next
  assume "want \<noteq> None"
  then obtain w where "want = Some w" by auto
  then show "mismatch (Diff E None (Some (Equals E want)))"
    by (simp add: Diff_def mismatch_def ErrDiff_Equals)
next
  assume "target \<noteq> None"
  then obtain t where "target = Some t" by auto
  then show "mismatch (Diff E None (Some (Is E target)))"
    by (simp add: Diff_def mismatch_def ErrDiff_Is)
qed

theorem absence_symmetry_witness:
  "Diff env0 None (Some (Equals env0 (Some errUhOh))) = Inr ''got error <nil>; want == uh oh'' \<and>
   mismatch (Diff env0 None (Some (Equals env0 (Some errUhOh)))) \<and>
   Diff env0 None (Some (Is env0 (Some errUhOh))) = Inr ''got error <nil>; want error that Is() uh oh'' \<and>
   mismatch (Diff env0 None (Some (Is env0 (Some errUhOh))))"
proof -
  have "mismatch (Diff env0 None (Some (Equals env0 (Some errUhOh))))"
    using absence_symmetry [of env0 _ "Some errUhOh"] by blast
  moreover have "mismatch (Diff env0 None (Some (Is env0 (Some errUhOh))))"
    using absence_symmetry [of env0 _ _ "Some errUhOh"] by blast
  moreover have "Diff env0 None (Some (Equals env0 (Some errUhOh))) = Inr ''got error <nil>; want == uh oh''"
    by (simp add: Diff_def ErrDiff_Equals errUhOh_def errors_New_def)
  moreover have "Diff env0 None (Some (Is env0 (Some errUhOh))) =
      Inr ''got error <nil>; want error that Is() uh oh''"
    by (simp add: Diff_def ErrDiff_Is errUhOh_def errors_New_def)
  ultimately show ?thesis by simp
qed

text \<open>
  The claim as it was stated, for any choice of parameters, fails for the \<open>nil\<close>
  parameter: \<open>Equals(nil)\<close> accepts the absence of an error.
\<close>

theorem absence_accepted_counterexample:
  "Diff env0 None (Some (Equals env0 None)) = Inr [] \<and>
   \<not> mismatch (Diff env0 None (Some (Equals env0 None)))"
  by (simp add: Diff_def ErrDiff_Equals mismatch_def)

section \<open>The scenario of the example\<close>

text \<open>
  Claim C8, as the code and its example have it. The observed error is the one that
  prints as \<open>wrapped(uh oh)\<close> and wraps the error that prints as \<open>uh oh\<close>; the parameter of
  \<open>Equals\<close> is the wrapped error \<open>uh oh\<close>. The diagnostic is
  \<open>got error wrapped(uh oh); want == uh oh\<close>.
\<close>

theorem example_Equals_not_equal:
  "Error errWrapped = ''wrapped(uh oh)'' \<and> Error errUhOh = ''uh oh'' \<and>
   Unwrap errWrapped = [errUhOh] \<and>
   Diff E (Some errWrapped) (Some (Equals E (Some errUhOh))) =
     Inr ''got error wrapped(uh oh); want == uh oh''"
  by (simp add: Diff_def ErrDiff_Equals errUhOh_def errors_New_def errWrapped_def wrapError_def)

text \<open>
  With the roles as the claim was stated, the error \<open>uh oh\<close> observed and the wrapping
  error as parameter, the diagnostic is another one.
\<close>

theorem scenario_roles_counterexample:
  "Error errUhOh = ''uh oh'' \<and> Error errWrapped = ''wrapped(uh oh)'' \<and>
   Diff env0 (Some errUhOh) (Some (Equals env0 (Some errWrapped))) =
     Inr ''got error uh oh; want == wrapped(uh oh)'' \<and>
   Diff env0 (Some errUhOh) (Some (Equals env0 (Some errWrapped))) \<noteq>
     Inr ''got error wrapped(uh oh); want == uh oh''"
  by (simp add: Diff_def ErrDiff_Equals errUhOh_def errors_New_def errWrapped_def wrapError_def)

section \<open>Substring containment\<close>

text \<open>
  Claim C4. \<open>Contains(substr)\<close> returns the empty string exactly when the observed error
  is not \<open>nil\<close> and \<open>substr\<close> occurs in its text. The empty substring is found in every
  error and never matches \<open>nil\<close>. On a mismatch the description is
  \<open>containing substring\<close> followed by the substring as \<open>%q\<close> quotes it, which is what
  \<open>strconv.Quote\<close> returns for it: for \<open>nil\<close> and the empty substring the diagnostic is
  \<open>got error <nil>; want containing substring\<close> and two double quotes; and a substring
  with a double quote, a backslash, a line feed, a byte that is no UTF-8, a no-break
  space and an accented letter is printed with the first five escaped.
\<close>

theorem Contains_matches_substring:
  "(ErrDiff (Contains E substr) got = Inr [] \<longleftrightarrow>
      (\<exists>e. got = Some e \<and> (\<exists>p q. Error e = p @ substr @ q))) \<and>
   ErrDiff (Contains E []) (Some e) = Inr [] \<and>
   mismatch (ErrDiff (Contains E []) None) \<and>
   (ErrDiff (Contains E substr) got \<noteq> Inr [] \<longrightarrow>
      ErrDiff (Contains E substr) got =
        Inr (''got error '' @ print_v (any_of got) @ ''; want containing substring '' @
             strconv_Quote E substr)) \<and>
   Diff E None (Some (Contains E [])) =
     Inr (''got error <nil>; want containing substring '' @ [CHR 0x22, CHR 0x22]) \<and>
   Diff E None (Some (Contains E oddSubstr)) =
     Inr (''got error <nil>; want containing substring '' @
          [CHR 0x22, CHR 0x5C, CHR 0x22, CHR 0x5C, CHR 0x5C, CHR 0x5C, CHR ''n'', CHR 0x5C] @
          ''xff'' @ [CHR 0x5C] @ ''u00a0'' @ [CHR 0xC3, CHR 0xA9, CHR 0x22])"
proof (intro conjI impI)
  show "ErrDiff (Contains E substr) got = Inr [] \<longleftrightarrow>
      (\<exists>e. got = Some e \<and> (\<exists>p q. Error e = p @ substr @ q))"
    by (cases got) (simp_all add: ErrDiff_Contains strings_Contains_iff)
  have "Error e = [] @ [] @ Error e" by simp
  then have "strings_Contains (Error e) []" by (subst strings_Contains_iff) blast
  then show "ErrDiff (Contains E []) (Some e) = Inr []" by (simp add: ErrDiff_Contains)
  show "mismatch (ErrDiff (Contains E []) None)" by (simp add: ErrDiff_Contains mismatch_def)
  show "Diff E None (Some (Contains E [])) =
     Inr (''got error <nil>; want containing substring '' @ [CHR 0x22, CHR 0x22])"
    by (simp add: Diff_def ErrDiff_Contains strconv_Quote_examples)
  show "Diff E None (Some (Contains E oddSubstr)) =
     Inr (''got error <nil>; want containing substring '' @
          [CHR 0x22, CHR 0x5C, CHR 0x22, CHR 0x5C, CHR 0x5C, CHR 0x5C, CHR ''n'', CHR 0x5C] @
          ''xff'' @ [CHR 0x5C] @ ''u00a0'' @ [CHR 0xC3, CHR 0xA9, CHR 0x22])"
    by (simp add: Diff_def ErrDiff_Contains strconv_Quote_examples)
next
  assume "ErrDiff (Contains E substr) got \<noteq> Inr []"
  then show "ErrDiff (Contains E substr) got =
        Inr (''got error '' @ print_v (any_of got) @ ''; want containing substring '' @
             strconv_Quote E substr)"
    by (simp add: ErrDiff_Contains split: if_splits)
qed

text \<open>
  The match and the mismatch of the example, and the substring with the characters that
  \<open>%q\<close> escapes, on an error that does not contain it.
\<close>

theorem Contains_matches_substring_witness:
  "ErrDiff (Contains env0 ''uh'') (Some errUhOh) = Inr [] \<and>
   ErrDiff (Contains env0 ''foobar'') (Some errUhOh) =
     Inr (''got error uh oh; want containing substring '' @ [CHR 0x22] @ ''foobar'' @ [CHR 0x22]) \<and>
   ErrDiff (Contains env0 [CHR 0x22, CHR 0x5C, CHR 0x0A, CHR 0xFF, CHR 0xC2, CHR 0xA0, CHR 0xC3, CHR 0xA9])
       (Some errUhOh) =
     Inr (''got error uh oh; want containing substring '' @
          [CHR 0x22, CHR 0x5C, CHR 0x22, CHR 0x5C, CHR 0x5C, CHR 0x5C, CHR ''n'', CHR 0x5C] @
          ''xff'' @ [CHR 0x5C] @ ''u00a0'' @ [CHR 0xC3, CHR 0xA9, CHR 0x22])"
proof -
  let ?odd = "[CHR 0x22, CHR 0x5C, CHR 0x0A, CHR 0xFF, CHR 0xC2, CHR 0xA0, CHR 0xC3, CHR 0xA9]"
  have "Error errUhOh = [] @ ''uh'' @ '' oh''" by (simp add: errUhOh_def errors_New_def)
  then have "ErrDiff (Contains env0 ''uh'') (Some errUhOh) = Inr []"
    using Contains_matches_substring [of env0 "''uh''" "Some errUhOh"] by blast
  moreover have "\<not> (\<exists>e. Some errUhOh = Some e \<and> (\<exists>p q. Error e = p @ ''foobar'' @ q))"
    by (simp add: strings_Contains_iff [symmetric] errUhOh_def errors_New_def)
  then have "ErrDiff (Contains env0 ''foobar'') (Some errUhOh) \<noteq> Inr []"
    using Contains_matches_substring [of env0 "''foobar''" "Some errUhOh"] by blast
  then have "ErrDiff (Contains env0 ''foobar'') (Some errUhOh) =
      Inr (''got error '' @ print_v (any_of (Some errUhOh)) @ ''; want containing substring '' @
           strconv_Quote env0 ''foobar'')"
    using Contains_matches_substring [of env0 "''foobar''" "Some errUhOh"] by blast
  moreover have "\<not> (\<exists>e. Some errUhOh = Some e \<and> (\<exists>p q. Error e = p @ ?odd @ q))"
    by (simp add: strings_Contains_iff [symmetric] errUhOh_def errors_New_def)
  then have "ErrDiff (Contains env0 ?odd) (Some errUhOh) \<noteq> Inr []"
    using Contains_matches_substring [of env0 ?odd "Some errUhOh"] by blast
  then have "ErrDiff (Contains env0 ?odd) (Some errUhOh) =
      Inr (''got error '' @ print_v (any_of (Some errUhOh)) @ ''; want containing substring '' @
           strconv_Quote env0 ?odd)"
    using Contains_matches_substring [of env0 ?odd "Some errUhOh"] by blast
  moreover have "print_v (any_of (Some errUhOh)) = ''uh oh''"
    by (simp add: errUhOh_def errors_New_def)
  moreover have "strconv_Quote env0 ''foobar'' = [CHR 0x22] @ ''foobar'' @ [CHR 0x22]"
    by (rule strconv_Quote_examples)
  moreover have "strconv_Quote env0 ?odd =
      [CHR 0x22, CHR 0x5C, CHR 0x22, CHR 0x5C, CHR 0x5C, CHR 0x5C, CHR ''n'', CHR 0x5C] @
      ''xff'' @ [CHR 0x5C] @ ''u00a0'' @ [CHR 0xC3, CHR 0xA9, CHR 0x22]"
    by (simp add: strconv_Quote_def appendEscapedRune_def IsPrint_def lowerhex_def between_def
        byte_def)
  ultimately show ?thesis by simp
qed

section \<open>Uniform diagnostics\<close>

text \<open>A matcher of the package returns the empty string or a result of \<open>DiffMessage\<close>, or panics.\<close>

lemma matcher_result:
  "W = Equals E want \<or> W = Is E target \<or> W = Contains E substr \<or> W = As E T match \<Longrightarrow>
   ErrDiff W got = Inr [] \<or> (\<exists>wantFormat a. ErrDiff W got = Inr (DiffMessage E got wantFormat a))
   \<or> (\<exists>p. ErrDiff W got = Inl p)"
proof (elim disjE)
  assume W: "W = Equals E want"
  show ?thesis
  proof (cases "iface_eq got want")
    case (Inl p)
    with W show ?thesis by (simp add: Equals_def)
  next
    case (Inr b)
    with W show ?thesis by (cases b) (auto simp: Equals_def)
  qed
next
  assume W: "W = Is E target"
  show ?thesis
  proof (cases "errors_Is E got target")
    case (Inl p)
    with W show ?thesis by (simp add: Is_def)
  next
    case (Inr b)
    with W show ?thesis by (cases b) (auto simp: Is_def)
  qed
next
  assume "W = Contains E substr"
  then show ?thesis by (auto simp: Contains_def)
next
  assume "W = As E T match"
  then show ?thesis by (cases "errors_As E got T") (auto simp: As_def Let_def)
qed

text \<open>
  Claim C9, as the code has it. Every non-empty string that a matcher of the package
  (\<open>Equals\<close>, \<open>Is\<close>, \<open>Contains\<close>, \<open>As\<close>) returns, and every non-empty string that \<open>Diff\<close>
  returns for a \<open>nil\<close> \<open>Want\<close> or for one of these matchers, is a result of \<open>DiffMessage\<close>
  for the observed error, and so has the canonical form.
\<close>

theorem builtin_diagnostics_canonical:
  "(W = Equals E want \<or> W = Is E target \<or> W = Contains E substr \<or> W = As E T match) \<and>
   (r = ErrDiff W got \<or> r = Diff E got (Some W) \<or> r = Diff E got None) \<and>
   r = Inr s \<and> s \<noteq> [] \<longrightarrow>
     (\<exists>wantFormat a. s = DiffMessage E got wantFormat a) \<and> canonical got s"
proof (rule impI)
  assume h: "(W = Equals E want \<or> W = Is E target \<or> W = Contains E substr \<or> W = As E T match) \<and>
   (r = ErrDiff W got \<or> r = Diff E got (Some W) \<or> r = Diff E got None) \<and> r = Inr s \<and> s \<noteq> []"
  then have "r = ErrDiff W got \<or> r = Diff E got None" by (auto simp: Diff_def)
  then have "\<exists>wantFormat a. s = DiffMessage E got wantFormat a"
  proof
    assume "r = ErrDiff W got"
    with h matcher_result [of W E want target substr T match got] show ?thesis by auto
  next
    assume "r = Diff E got None"
    with h have "s = DiffMessage E got ''nil'' []" by (auto simp: Diff_def split: if_splits)
    then show ?thesis by blast
  qed
  then show "(\<exists>wantFormat a. s = DiffMessage E got wantFormat a) \<and> canonical got s"
    using DiffMessage_canonical by blast
qed

theorem builtin_diagnostics_canonical_witness:
  "ErrDiff (Contains env0 ''foobar'') (Some errUhOh) =
     Inr (''got error uh oh; want containing substring '' @ [CHR 0x22] @ ''foobar'' @ [CHR 0x22]) \<and>
   canonical (Some errUhOh)
     (''got error uh oh; want containing substring '' @ [CHR 0x22] @ ''foobar'' @ [CHR 0x22]) \<and>
   Diff env0 (Some errUhOh) None = Inr ''got error uh oh; want nil'' \<and>
   canonical (Some errUhOh) ''got error uh oh; want nil''"
proof -
  let ?s = "''got error uh oh; want containing substring '' @ [CHR 0x22] @ ''foobar'' @ [CHR 0x22]"
  have a: "ErrDiff (Contains env0 ''foobar'') (Some errUhOh) = Inr ?s"
    by (simp add: ErrDiff_Contains errUhOh_def errors_New_def strconv_Quote_examples)
  have c: "?s \<noteq> []" by simp
  have d: "Diff env0 (Some errUhOh) None = Inr ''got error uh oh; want nil''"
    by (simp add: Diff_def DiffMessage_nil errUhOh_def errors_New_def)
  have e: "''got error uh oh; want nil'' \<noteq> []" by simp
  have "canonical (Some errUhOh) ?s"
    using builtin_diagnostics_canonical
      [of "Contains env0 ''foobar''" env0 _ _ "''foobar''" _ _ "ErrDiff (Contains env0 ''foobar'') (Some errUhOh)"
          "Some errUhOh" ?s] a c
    by blast
  moreover have "canonical (Some errUhOh) ''got error uh oh; want nil''"
    using builtin_diagnostics_canonical
      [of "Contains env0 ''foobar''" env0 _ _ "''foobar''" _ _ "Diff env0 (Some errUhOh) None"
          "Some errUhOh" "''got error uh oh; want nil''"] d e
    by blast
  ultimately show ?thesis using a d by simp
qed

text \<open>
  The claim as it was stated, for every string that \<open>Diff\<close> returns, fails for a \<open>Want\<close>
  of the caller's own: \<open>Diff\<close> hands its result back unchanged, whatever its shape.
\<close>

theorem own_Want_counterexample:
  "Diff env0 None (Some ownWant) = Inr ''unexpected'' \<and> \<not> canonical None ''unexpected''"
  by (simp add: Diff_def ownWant_def canonical_def)

section \<open>Typed refinement\<close>

text \<open>
  What \<open>As[T](match)\<close> returns in its three cases. In the first the description ends
  with what \<open>%T\<close> prints for the zero value of \<open>T\<close>: the name of a concrete type, but
  \<open><nil>\<close> for an interface type, whose zero value is \<open>nil\<close>.
\<close>

lemma As_three_way:
  "(errors_As E got T = None \<longrightarrow>
      ErrDiff (As E T match) got =
        Inr (''got error '' @ print_v (any_of got) @ ''; want error tree containing type '' @
             (case T of ConcreteT z \<Rightarrow> tname (dyn_type z) | InterfaceT impl \<Rightarrow> ''<nil>''))) \<and>
   (errors_As E got T = Some x \<and> match x = [] \<longrightarrow> ErrDiff (As E T match) got = Inr []) \<and>
   (errors_As E got T = Some x \<and> match x \<noteq> [] \<longrightarrow>
      ErrDiff (As E T match) got = Inr (''got error '' @ print_v (any_of got) @ ''; want '' @ match x))"
  by (cases T) (simp_all add: ErrDiff_As)

text \<open>
  Claim C2, where the code departs from it. The claim has the diagnostic of a failed
  extraction name the type \<open>T\<close>. For an interface type it does not: with \<open>T\<close> an interface
  type and the observed error \<open>nil\<close>, or an error that does not implement \<open>T\<close>,
  \<open>As[T](match)\<close> returns a diagnostic that ends in \<open>error tree containing type <nil>\<close>.
\<close>

theorem As_interface_type_prints_nil:
  "ErrDiff (As E (InterfaceT impl) match) None =
     Inr ''got error <nil>; want error tree containing type <nil>'' \<and>
   ErrDiff (As env0 timeoutT match) (Some errUhOh) =
     Inr ''got error uh oh; want error tree containing type <nil>''"
  by (simp add: ErrDiff_As timeoutT_def errUhOh_def errors_New_def env0_def)

section \<open>The formatter\<close>

text \<open>
  Claim C6, where the code departs from it. The claim has the description be
  \<open>wantFormat\<close> with the caller's operands substituted. \<open>DiffMessage\<close> prints
  \<open>wantFormat\<close> as the tail of a longer format whose first operand is the observed error,
  so an explicit argument index in \<open>wantFormat\<close> counts from the observed error:
  \<open>%[1]s\<close> with the operand \<open>x\<close> prints the observed error, where \<open>Sprintf\<close> of
  \<open>wantFormat\<close> and the operands prints \<open>x\<close>; and \<open>%[1]v\<close> without operands prints the
  observed error, where \<open>Sprintf\<close> reports a bad index. (For a \<open>wantFormat\<close> whose
  directives are verbs without flags, width or index, as those of the package are, the
  claim holds: \<open>DiffMessage_sequential\<close>.)
\<close>

theorem DiffMessage_explicit_index:
  "DiffMessage E (Some errUhOh) ''%[1]s'' [StrV ''x''] = ''got error uh oh; want uh oh'' \<and>
   Sprintf E ''%[1]s'' [StrV ''x''] = ''x'' \<and>
   DiffMessage E None ''%[1]v'' [] = ''got error <nil>; want <nil>'' \<and>
   Sprintf E ''%[1]v'' [] = ''%!v(BADINDEX)''"
  by (simp add: DiffMessage_unfold Sprintf_def doPrintf.simps(2) directive_def verbStep_def
      parseArgNumber_def printArg_def fmtString_def width_after_index_def between_def byte_def
      errUhOh_def errors_New_def)

end
